theory Spec2Isabelle
  imports Main
begin

section \<open>x509gen.py: provisioning of a small certificate chain\<close>

text \<open>
  The script builds four certificates (root, signing CA, server, self-signed client) with the
  \<^verbatim>\<open>cryptography\<close> package and keeps every key and certificate in a PEM file of the
  working directory. The embedding follows the script function by function. What the script
  computes itself (names, extension values, the order of the builder calls, the
  create-or-reuse blocks of \<^verbatim>\<open>main\<close>) is defined here; what the package computes
  (key generation, PEM parsing and printing, key identifiers, signing, the clock and the
  random source), and what the file system answers to a name it cannot read, is a
  parameter, the record \<open>backend\<close>, so every theorem holds for any behaviour of the
  package and of the file system.
\<close>

subsection \<open>Values\<close>

type_synonym bytes = string

text \<open>
  Python exceptions that can leave a function of the script. The first three are what
  \<^verbatim>\<open>open\<close> raises for a name it cannot read.
\<close>

datatype error =
    FileNotFoundError
  | PermissionError
  | IsADirectoryError
  | ValueError
  | TypeError
  | OverflowError
  | UnsupportedAlgorithm
  | InternalError

datatype name_oid = COMMON_NAME | ORGANIZATIONAL_UNIT_NAME | SERIAL_NUMBER

text \<open>\<^verbatim>\<open>x509.Name([x509.NameAttribute(oid, value), ...])\<close>: the list of its attributes.\<close>

type_synonym name = "(name_oid \<times> string) list"

definition ROOT_DN :: name where
  "ROOT_DN = [(COMMON_NAME, ''Mothership Root'')]"

definition INTERMEDIATE_DN :: name where
  "INTERMEDIATE_DN = [(COMMON_NAME, ''Mothership CA1'')]"

definition SERVER_DN :: name where
  "SERVER_DN = [(ORGANIZATIONAL_UNIT_NAME, ''Mothership Server'')]"

definition CLIENT_DN :: name where
  "CLIENT_DN = [(ORGANIZATIONAL_UNIT_NAME, ''Random client'')]"

record key_usage =
  digital_signature :: bool
  content_commitment :: bool
  key_encipherment :: bool
  data_encipherment :: bool
  key_agreement :: bool
  key_cert_sign :: bool
  crl_sign :: bool
  encipher_only :: bool
  decipher_only :: bool

definition CA_KEYUSAGE :: key_usage where
  "CA_KEYUSAGE = \<lparr>
     digital_signature = True,
     content_commitment = False,
     key_encipherment = False,
     data_encipherment = False,
     key_agreement = False,
     key_cert_sign = True,
     crl_sign = True,
     encipher_only = False,
     decipher_only = False \<rparr>"

definition ENTITY_KEYUSAGE :: key_usage where
  "ENTITY_KEYUSAGE = \<lparr>
     digital_signature = True,
     content_commitment = False,
     key_encipherment = True,
     data_encipherment = False,
     key_agreement = False,
     key_cert_sign = False,
     crl_sign = False,
     encipher_only = False,
     decipher_only = False \<rparr>"

definition SELFSIGNED_ENTITY_KEYUSAGE :: key_usage where
  "SELFSIGNED_ENTITY_KEYUSAGE = \<lparr>
     digital_signature = True,
     content_commitment = False,
     key_encipherment = True,
     data_encipherment = False,
     key_agreement = False,
     key_cert_sign = True,
     crl_sign = False,
     encipher_only = False,
     decipher_only = False \<rparr>"

datatype eku_oid = SERVER_AUTH | CLIENT_AUTH

definition SERVER_EXTKEYUSAGE :: "eku_oid list" where
  "SERVER_EXTKEYUSAGE = [SERVER_AUTH]"

definition CLIENT_EXTKEYUSAGE :: "eku_oid list" where
  "CLIENT_EXTKEYUSAGE = [CLIENT_AUTH]"

datatype general_name = DNSName string | DirectoryName name

text \<open>
  The extension values the script builds. \<open>BasicConstraints ca path_length\<close> has
  \<open>None\<close> for Python's \<^verbatim>\<open>path_length=None\<close>. \<open>AuthorityKeyIdentifier\<close> carries
  the key identifier, the authority's issuer names and its serial number.
\<close>

datatype extension_value =
    BasicConstraints bool "nat option"
  | KeyUsage key_usage
  | ExtendedKeyUsage "eku_oid list"
  | SubjectAlternativeName "general_name list"
  | AuthorityKeyIdentifier "bytes option" "general_name list option" "int option"
  | SubjectKeyIdentifier bytes

datatype extension_oid =
    BASIC_CONSTRAINTS
  | KEY_USAGE
  | EXTENDED_KEY_USAGE
  | SUBJECT_ALTERNATIVE_NAME
  | AUTHORITY_KEY_IDENTIFIER
  | SUBJECT_KEY_IDENTIFIER

fun oid_of :: "extension_value \<Rightarrow> extension_oid" where
  "oid_of (BasicConstraints ca pl) = BASIC_CONSTRAINTS"
| "oid_of (KeyUsage ku) = KEY_USAGE"
| "oid_of (ExtendedKeyUsage us) = EXTENDED_KEY_USAGE"
| "oid_of (SubjectAlternativeName ns) = SUBJECT_ALTERNATIVE_NAME"
| "oid_of (AuthorityKeyIdentifier ki ns sn) = AUTHORITY_KEY_IDENTIFIER"
| "oid_of (SubjectKeyIdentifier d) = SUBJECT_KEY_IDENTIFIER"

record extension =
  ext_oid :: extension_oid
  critical :: bool
  ext_value :: extension_value

text \<open>
  Naive \<^verbatim>\<open>datetime.datetime\<close> values are counted in microseconds from
  0001-01-01T00:00:00; \<^verbatim>\<open>datetime.max\<close> is the last microsecond of the year 9999
  (day 3652059). A \<^verbatim>\<open>timedelta\<close> is a number of microseconds.
\<close>

type_synonym datetime = int
type_synonym timedelta = int

definition DATETIME_MAX :: datetime where
  "DATETIME_MAX = 3652059 * 86400000000 - 1"

definition timedelta :: "int \<Rightarrow> int \<Rightarrow> int \<Rightarrow> error + timedelta" where
  \<comment> \<open>\<^verbatim>\<open>datetime.timedelta(days, seconds, microseconds)\<close>: more than 999999999 days
      in either direction raise OverflowError.\<close>
  "timedelta days seconds microseconds =
     (let us = days * 86400000000 + seconds * 1000000 + microseconds;
          d = us div 86400000000
      in if - 999999999 \<le> d \<and> d \<le> 999999999 then Inr us else Inl OverflowError)"

definition datetime_add :: "datetime \<Rightarrow> timedelta \<Rightarrow> error + datetime" where
  \<comment> \<open>\<^verbatim>\<open>datetime + timedelta\<close>: a result outside the years 1 to 9999 raises
      OverflowError.\<close>
  "datetime_add t delta =
     (let r = t + delta
      in if 0 \<le> r \<and> r \<le> DATETIME_MAX then Inr r else Inl OverflowError)"

subsection \<open>The certificate builder\<close>

text \<open>
  \<^verbatim>\<open>x509.CertificateBuilder\<close> collects the fields of the certificate to be signed. Each
  setter returns a builder with one more field; \<^verbatim>\<open>add_extension\<close> appends to the list
  of extensions. The package's checks of the collected fields are part of \<open>builder_sign\<close>
  below.
\<close>

record 'pub builder =
  b_subject_name :: "name option"
  b_issuer_name :: "name option"
  b_not_valid_before :: "datetime option"
  b_not_valid_after :: "datetime option"
  b_serial_number :: "int option"
  b_public_key :: "'pub option"
  b_extensions :: "extension list"

definition CertificateBuilder :: "'pub builder" where
  "CertificateBuilder = \<lparr>
     b_subject_name = None, b_issuer_name = None,
     b_not_valid_before = None, b_not_valid_after = None,
     b_serial_number = None, b_public_key = None, b_extensions = [] \<rparr>"

definition subject_name :: "name \<Rightarrow> 'pub builder \<Rightarrow> 'pub builder" where
  "subject_name n b = b\<lparr>b_subject_name := Some n\<rparr>"

definition issuer_name :: "name \<Rightarrow> 'pub builder \<Rightarrow> 'pub builder" where
  "issuer_name n b = b\<lparr>b_issuer_name := Some n\<rparr>"

definition not_valid_before :: "datetime \<Rightarrow> 'pub builder \<Rightarrow> 'pub builder" where
  "not_valid_before t b = b\<lparr>b_not_valid_before := Some t\<rparr>"

definition not_valid_after :: "datetime \<Rightarrow> 'pub builder \<Rightarrow> 'pub builder" where
  "not_valid_after t b = b\<lparr>b_not_valid_after := Some t\<rparr>"

definition serial_number :: "int \<Rightarrow> 'pub builder \<Rightarrow> 'pub builder" where
  "serial_number n b = b\<lparr>b_serial_number := Some n\<rparr>"

definition public_key :: "'pub \<Rightarrow> 'pub builder \<Rightarrow> 'pub builder" where
  "public_key k b = b\<lparr>b_public_key := Some k\<rparr>"

definition add_extension :: "extension_value \<Rightarrow> bool \<Rightarrow> 'pub builder \<Rightarrow> 'pub builder" where
  "add_extension v c b =
     b\<lparr>b_extensions := b_extensions b @ [\<lparr>ext_oid = oid_of v, critical = c, ext_value = v\<rparr>]\<rparr>"

subsection \<open>The package and the file system as a parameter\<close>

datatype encoding = PEM | DER
datatype private_format = PKCS8 | TraditionalOpenSSL
datatype public_format = PKCS1 | SubjectPublicKeyInfo
datatype key_encryption = NoEncryption | BestAvailableEncryption bytes
datatype hash_algorithm = SHA1 | SHA256 | SHA512

text \<open>
  A computation over a state \<open>'s\<close> returns a value or raises, and leaves a state.
\<close>

type_synonym ('s, 'a) prog = "'s \<Rightarrow> (error + 'a) \<times> 's"

text \<open>
  The functions of the package the script calls. \<open>'w\<close> is the state of the world outside
  the files (clock, random source), \<open>'priv\<close> and \<open>'pub\<close> are key objects and \<open>'crt\<close>
  is a certificate object. \<open>key_identifier\<close> is the digest of a public key that both
  \<^verbatim>\<open>AuthorityKeyIdentifier.from_issuer_public_key\<close> and
  \<^verbatim>\<open>SubjectKeyIdentifier.from_public_key\<close> compute. The last field is the answer of the
  file system: \<open>open_error name\<close> is the exception that \<^verbatim>\<open>open(name, 'rb')\<close> raises
  when \<open>name\<close> has no content that can be read, FileNotFoundError when there is no such
  file, and otherwise what stands in the way (PermissionError, IsADirectoryError).
\<close>

record ('w, 'priv, 'pub, 'crt) backend =
  generate_private_key :: "nat \<Rightarrow> nat \<Rightarrow> ('w, 'priv) prog"
  public_key_of :: "'priv \<Rightarrow> 'pub"
  private_bytes :: "encoding \<Rightarrow> private_format \<Rightarrow> key_encryption \<Rightarrow> 'priv \<Rightarrow> bytes"
  public_bytes :: "encoding \<Rightarrow> public_format \<Rightarrow> 'pub \<Rightarrow> bytes"
  load_pem_private_key :: "bytes \<Rightarrow> bytes option \<Rightarrow> error + 'priv"
  load_pem_public_key :: "bytes \<Rightarrow> error + 'pub"
  load_pem_x509_certificate :: "bytes \<Rightarrow> error + 'crt"
  cert_subject :: "'crt \<Rightarrow> name"
  cert_public_key :: "'crt \<Rightarrow> 'pub"
  cert_public_bytes :: "encoding \<Rightarrow> 'crt \<Rightarrow> bytes"
  key_identifier :: "'pub \<Rightarrow> bytes"
  datetime_now :: "('w, datetime) prog"
  random_serial_number :: "('w, int) prog"
  builder_sign :: "'priv \<Rightarrow> hash_algorithm \<Rightarrow> 'pub builder \<Rightarrow> error + 'crt"
  open_error :: "string \<Rightarrow> error"

definition from_issuer_public_key ::
  "('w, 'priv, 'pub, 'crt) backend \<Rightarrow> 'pub \<Rightarrow> extension_value" where
  "from_issuer_public_key L k = AuthorityKeyIdentifier (Some (key_identifier L k)) None None"

definition from_public_key ::
  "('w, 'priv, 'pub, 'crt) backend \<Rightarrow> 'pub \<Rightarrow> extension_value" where
  "from_public_key L k = SubjectKeyIdentifier (key_identifier L k)"

subsection \<open>Sequencing\<close>

definition return :: "'a \<Rightarrow> ('s, 'a) prog" where
  "return a s = (Inr a, s)"

definition bind :: "('s, 'a) prog \<Rightarrow> ('a \<Rightarrow> ('s, 'b) prog) \<Rightarrow> ('s, 'b) prog" where
  "bind m f s = (case m s of (Inl e, s') \<Rightarrow> (Inl e, s') | (Inr a, s') \<Rightarrow> f a s')"

definition from_result :: "error + 'a \<Rightarrow> ('s, 'a) prog" where
  \<comment> \<open>a call that reads no state: its value, or its exception\<close>
  "from_result r s = (r, s)"

subsection \<open>The functions of the script\<close>

definition create_rsa_key_pair ::
  "('w, 'priv, 'pub, 'crt) backend \<Rightarrow> ('w, bytes \<times> bytes) prog" where
  "create_rsa_key_pair L =
     bind (generate_private_key L 65537 2048) (\<lambda>private_key.
     let public_key = public_key_of L private_key;
         priv_bytes = private_bytes L PEM PKCS8 NoEncryption private_key;
         pub_bytes = public_bytes L PEM PKCS1 public_key
     in return (priv_bytes, pub_bytes))"

definition cert_helper ::
  "('w, 'priv, 'pub, 'crt) backend \<Rightarrow> 'pub \<Rightarrow> name \<Rightarrow> name \<Rightarrow> int \<Rightarrow> ('w, 'pub builder) prog" where
  "cert_helper L pub subject_dn issuer_dn days =
     (let builder = CertificateBuilder;
          builder = subject_name subject_dn builder;
          builder = issuer_name issuer_dn builder
      in bind (datetime_now L) (\<lambda>validity_start.
         bind (from_result (timedelta days 0 0)) (\<lambda>delta.
         bind (from_result (datetime_add validity_start delta)) (\<lambda>validity_end.
         let builder = not_valid_before validity_start builder;
             builder = not_valid_after validity_end builder
         in bind (random_serial_number L) (\<lambda>serial.
            let builder = serial_number serial builder;
                builder = public_key pub builder
            in return builder)))))"

definition create_root_cert ::
  "('w, 'priv, 'pub, 'crt) backend \<Rightarrow> bytes \<Rightarrow> int \<Rightarrow> ('w, bytes) prog" where
  "create_root_cert L pem_private_key days =
     bind (from_result (load_pem_private_key L pem_private_key None)) (\<lambda>private_key.
     let pub = public_key_of L private_key
     in bind (cert_helper L pub ROOT_DN ROOT_DN days) (\<lambda>builder.
        let builder = add_extension (BasicConstraints True None) True builder;
            builder = add_extension (KeyUsage CA_KEYUSAGE) True builder;
            builder = add_extension (from_issuer_public_key L pub) False builder;
            builder = add_extension (from_public_key L pub) False builder
        in bind (from_result (builder_sign L private_key SHA256 builder)) (\<lambda>certificate.
           let cert_bytes = cert_public_bytes L PEM certificate
           in return cert_bytes)))"

definition create_signing_cert ::
  "('w, 'priv, 'pub, 'crt) backend \<Rightarrow> bytes \<Rightarrow> bytes \<Rightarrow> bytes \<Rightarrow> int \<Rightarrow> ('w, bytes) prog" where
  "create_signing_cert L pem_issuer_cert pem_private_key pem_public_key days =
     bind (from_result (load_pem_x509_certificate L pem_issuer_cert)) (\<lambda>issuer_cert.
     bind (from_result (load_pem_private_key L pem_private_key None)) (\<lambda>private_key.
     bind (from_result (load_pem_public_key L pem_public_key)) (\<lambda>pub.
     bind (cert_helper L pub INTERMEDIATE_DN (cert_subject L issuer_cert) days) (\<lambda>builder.
     let builder = add_extension (BasicConstraints True (Some 0)) True builder;
         builder = add_extension (KeyUsage CA_KEYUSAGE) True builder;
         builder = add_extension
           (from_issuer_public_key L (cert_public_key L issuer_cert)) False builder;
         builder = add_extension (from_public_key L pub) False builder
     in bind (from_result (builder_sign L private_key SHA256 builder)) (\<lambda>certificate.
        let cert_bytes = cert_public_bytes L PEM certificate
        in return cert_bytes)))))"

definition create_server_cert ::
  "('w, 'priv, 'pub, 'crt) backend \<Rightarrow> bytes \<Rightarrow> bytes \<Rightarrow> bytes \<Rightarrow> int \<Rightarrow> ('w, bytes) prog" where
  "create_server_cert L pem_issuer_cert pem_private_key pem_public_key days =
     bind (from_result (load_pem_x509_certificate L pem_issuer_cert)) (\<lambda>issuer_cert.
     bind (from_result (load_pem_private_key L pem_private_key None)) (\<lambda>private_key.
     bind (from_result (load_pem_public_key L pem_public_key)) (\<lambda>pub.
     bind (cert_helper L pub SERVER_DN (cert_subject L issuer_cert) days) (\<lambda>builder.
     let builder = add_extension
           (SubjectAlternativeName [DNSName ''mothership_server'']) True builder;
         builder = add_extension (BasicConstraints False None) True builder;
         builder = add_extension (KeyUsage ENTITY_KEYUSAGE) True builder;
         builder = add_extension (ExtendedKeyUsage SERVER_EXTKEYUSAGE) True builder;
         builder = add_extension
           (from_issuer_public_key L (cert_public_key L issuer_cert)) False builder;
         builder = add_extension (from_public_key L pub) False builder
     in bind (from_result (builder_sign L private_key SHA256 builder)) (\<lambda>certificate.
        let cert_bytes = cert_public_bytes L PEM certificate
        in return cert_bytes)))))"

definition create_selfsigned_client_cert ::
  "('w, 'priv, 'pub, 'crt) backend \<Rightarrow> bytes \<Rightarrow> int \<Rightarrow> ('w, bytes) prog" where
  "create_selfsigned_client_cert L pem_private_key days =
     bind (from_result (load_pem_private_key L pem_private_key None)) (\<lambda>private_key.
     let pub = public_key_of L private_key
     in bind (cert_helper L pub CLIENT_DN CLIENT_DN days) (\<lambda>builder.
        let device_name = [(SERIAL_NUMBER, ''device_0001'')];
            builder = add_extension
              (SubjectAlternativeName [DirectoryName device_name]) True builder;
            builder = add_extension (BasicConstraints False None) True builder;
            builder = add_extension (KeyUsage SELFSIGNED_ENTITY_KEYUSAGE) True builder;
            builder = add_extension (ExtendedKeyUsage CLIENT_EXTKEYUSAGE) True builder;
            builder = add_extension (from_issuer_public_key L pub) False builder;
            builder = add_extension (from_public_key L pub) False builder
        in bind (from_result (builder_sign L private_key SHA256 builder)) (\<lambda>certificate.
           let cert_bytes = cert_public_bytes L PEM certificate
           in return cert_bytes)))"

subsection \<open>The files and the output\<close>

text \<open>
  The script reads and writes files of the working directory by name and prints progress
  lines. \<open>files\<close> maps a name to the content of the file when it exists and can be read.
  Opening any other name for reading raises \<open>open_error\<close> of that name: FileNotFoundError
  for a missing file, another exception for a file that is there and cannot be read. Writing
  creates or replaces the file, which can be read from then on; failures of writing are
  outside the model.
\<close>

record 'w sys =
  world :: 'w
  files :: "string \<rightharpoonup> bytes"
  stdout :: "string list"

definition read_file ::
  "('w, 'priv, 'pub, 'crt) backend \<Rightarrow> string \<Rightarrow> ('w sys, bytes) prog" where
  \<comment> \<open>\<^verbatim>\<open>open(name, 'rb').read()\<close>\<close>
  "read_file L name s =
     (case files s name of
        None \<Rightarrow> (Inl (open_error L name), s)
      | Some content \<Rightarrow> (Inr content, s))"

definition write_file :: "string \<Rightarrow> bytes \<Rightarrow> ('w sys, unit) prog" where
  \<comment> \<open>\<^verbatim>\<open>open(name, 'wb').write(content)\<close>\<close>
  "write_file name content s = (Inr (), s\<lparr>files := (files s)(name \<mapsto> content)\<rparr>)"

definition print :: "string \<Rightarrow> ('w sys, unit) prog" where
  "print line s = (Inr (), s\<lparr>stdout := stdout s @ [line]\<rparr>)"

definition in_world :: "('w, 'a) prog \<Rightarrow> ('w sys, 'a) prog" where
  \<comment> \<open>a call of the script's functions above: it sees the world, not the files\<close>
  "in_world m s = (case m (world s) of (r, w') \<Rightarrow> (r, s\<lparr>world := w'\<rparr>))"

definition try_except_FileNotFoundError ::
  "('s, 'a) prog \<Rightarrow> ('s, 'a) prog \<Rightarrow> ('s, 'a) prog" where
  \<comment> \<open>\<^verbatim>\<open>try: body  except FileNotFoundError: handler\<close>; any other exception leaves
      the statement\<close>
  "try_except_FileNotFoundError body handler s =
     (case body s of
        (Inl e, s') \<Rightarrow> (if e = FileNotFoundError then handler s' else (Inl e, s'))
      | (Inr a, s') \<Rightarrow> (Inr a, s'))"

subsection \<open>main\<close>

text \<open>
  The eight \<^verbatim>\<open>try\<close> statements of \<^verbatim>\<open>main\<close>, in the order of the script. Each is
  a computation that returns the variables it binds.
\<close>

definition main_root_keys ::
  "('w, 'priv, 'pub, 'crt) backend \<Rightarrow> ('w sys, bytes \<times> bytes) prog" where
  "main_root_keys L =
     try_except_FileNotFoundError
       (bind (read_file L ''root_ca_priv_key.pem'') (\<lambda>root_ca_priv_key.
        bind (read_file L ''root_ca_pub_key.pem'') (\<lambda>root_ca_pub_key.
        bind (print ''read root CA keys.'') (\<lambda>_.
        return (root_ca_priv_key, root_ca_pub_key)))))
       (bind (print ''Creating new root keys.'') (\<lambda>_.
        bind (in_world (create_rsa_key_pair L)) (\<lambda>(root_ca_priv_key, root_ca_pub_key).
        bind (write_file ''root_ca_priv_key.pem'' root_ca_priv_key) (\<lambda>_.
        bind (write_file ''root_ca_pub_key.pem'' root_ca_pub_key) (\<lambda>_.
        return (root_ca_priv_key, root_ca_pub_key))))))"

definition main_root_cert ::
  "('w, 'priv, 'pub, 'crt) backend \<Rightarrow> bytes \<Rightarrow> ('w sys, bytes) prog" where
  "main_root_cert L root_ca_priv_key =
     try_except_FileNotFoundError
       (bind (read_file L ''root_cert.pem'') (\<lambda>root_cert.
        bind (print ''read root certificate.'') (\<lambda>_.
        return root_cert)))
       (bind (print ''Creating new root certificate.'') (\<lambda>_.
        bind (in_world (create_root_cert L root_ca_priv_key 365)) (\<lambda>root_cert.
        bind (write_file ''root_cert.pem'' root_cert) (\<lambda>_.
        return root_cert))))"

definition main_signing_keys ::
  "('w, 'priv, 'pub, 'crt) backend \<Rightarrow> ('w sys, bytes \<times> bytes) prog" where
  "main_signing_keys L =
     try_except_FileNotFoundError
       (bind (read_file L ''signing_ca_priv_key.pem'') (\<lambda>signing_ca_priv_key.
        bind (read_file L ''signing_ca_pub_key.pem'') (\<lambda>signing_ca_pub_key.
        bind (print ''read signing keys.'') (\<lambda>_.
        return (signing_ca_priv_key, signing_ca_pub_key)))))
       (bind (print ''Creating new signing CA keys.'') (\<lambda>_.
        bind (in_world (create_rsa_key_pair L)) (\<lambda>(signing_ca_priv_key, signing_ca_pub_key).
        bind (write_file ''signing_ca_priv_key.pem'' signing_ca_priv_key) (\<lambda>_.
        bind (write_file ''signing_ca_pub_key.pem'' signing_ca_pub_key) (\<lambda>_.
        return (signing_ca_priv_key, signing_ca_pub_key))))))"

definition main_signing_cert ::
  "('w, 'priv, 'pub, 'crt) backend \<Rightarrow> bytes \<Rightarrow> bytes \<Rightarrow> bytes \<Rightarrow> ('w sys, bytes) prog" where
  "main_signing_cert L root_cert root_ca_priv_key signing_ca_pub_key =
     try_except_FileNotFoundError
       (bind (read_file L ''signing_cert.pem'') (\<lambda>signing_cert.
        bind (print ''read signing certificate.'') (\<lambda>_.
        return signing_cert)))
       (bind (print ''Creating new signing certificate.'') (\<lambda>_.
        bind (in_world
               (create_signing_cert L root_cert root_ca_priv_key signing_ca_pub_key 14))
          (\<lambda>signing_cert.
        bind (write_file ''signing_cert.pem'' signing_cert) (\<lambda>_.
        return signing_cert))))"

definition main_server_keys ::
  "('w, 'priv, 'pub, 'crt) backend \<Rightarrow> ('w sys, bytes \<times> bytes) prog" where
  "main_server_keys L =
     try_except_FileNotFoundError
       (bind (read_file L ''server_priv_key.pem'') (\<lambda>server_priv_key.
        bind (read_file L ''server_pub_key.pem'') (\<lambda>server_pub_key.
        bind (print ''read server keys.'') (\<lambda>_.
        return (server_priv_key, server_pub_key)))))
       (bind (print ''Creating new server keys.'') (\<lambda>_.
        bind (in_world (create_rsa_key_pair L)) (\<lambda>(server_priv_key, server_pub_key).
        bind (write_file ''server_priv_key.pem'' server_priv_key) (\<lambda>_.
        bind (write_file ''server_pub_key.pem'' server_pub_key) (\<lambda>_.
        return (server_priv_key, server_pub_key))))))"

definition main_server_cert ::
  "('w, 'priv, 'pub, 'crt) backend \<Rightarrow> bytes \<Rightarrow> bytes \<Rightarrow> bytes \<Rightarrow> ('w sys, bytes) prog" where
  "main_server_cert L signing_cert signing_ca_priv_key server_pub_key =
     try_except_FileNotFoundError
       (bind (read_file L ''server_cert.pem'') (\<lambda>server_cert.
        bind (print ''read server certificate.'') (\<lambda>_.
        return server_cert)))
       (bind (print ''Creating new server certificate.'') (\<lambda>_.
        bind (in_world
               (create_server_cert L signing_cert signing_ca_priv_key server_pub_key 14))
          (\<lambda>server_cert.
        bind (write_file ''server_cert.pem'' server_cert) (\<lambda>_.
        return server_cert))))"

definition main_client_keys ::
  "('w, 'priv, 'pub, 'crt) backend \<Rightarrow> ('w sys, bytes \<times> bytes) prog" where
  "main_client_keys L =
     try_except_FileNotFoundError
       (bind (read_file L ''client_priv_key.pem'') (\<lambda>client_priv_key.
        bind (read_file L ''client_pub_key.pem'') (\<lambda>client_pub_key.
        bind (print ''read client keys.'') (\<lambda>_.
        return (client_priv_key, client_pub_key)))))
       (bind (print ''Creating new client keys.'') (\<lambda>_.
        bind (in_world (create_rsa_key_pair L)) (\<lambda>(client_priv_key, client_pub_key).
        bind (write_file ''client_priv_key.pem'' client_priv_key) (\<lambda>_.
        bind (write_file ''client_pub_key.pem'' client_pub_key) (\<lambda>_.
        return (client_priv_key, client_pub_key))))))"

definition main_client_cert ::
  "('w, 'priv, 'pub, 'crt) backend \<Rightarrow> bytes \<Rightarrow> ('w sys, bytes) prog" where
  "main_client_cert L client_priv_key =
     try_except_FileNotFoundError
       (bind (read_file L ''client_cert.pem'') (\<lambda>client_cert.
        bind (print ''read client certificate.'') (\<lambda>_.
        return client_cert)))
       (bind (print ''Creating new client certificate.'') (\<lambda>_.
        bind (in_world (create_selfsigned_client_cert L client_priv_key 14)) (\<lambda>client_cert.
        bind (write_file ''client_cert.pem'' client_cert) (\<lambda>_.
        return client_cert))))"

definition main :: "('w, 'priv, 'pub, 'crt) backend \<Rightarrow> ('w sys, unit) prog" where
  "main L =
     bind (main_root_keys L) (\<lambda>(root_ca_priv_key, root_ca_pub_key).
     bind (main_root_cert L root_ca_priv_key) (\<lambda>root_cert.
     bind (main_signing_keys L) (\<lambda>(signing_ca_priv_key, signing_ca_pub_key).
     bind (main_signing_cert L root_cert root_ca_priv_key signing_ca_pub_key) (\<lambda>signing_cert.
     bind (main_server_keys L) (\<lambda>(server_priv_key, server_pub_key).
     bind (main_server_cert L signing_cert signing_ca_priv_key server_pub_key) (\<lambda>server_cert.
     bind (main_client_keys L) (\<lambda>(client_priv_key, client_pub_key).
     bind (main_client_cert L client_priv_key) (\<lambda>client_cert.
     return ()))))))))"

subsection \<open>Vocabulary of the properties\<close>

text \<open>
  \<open>issued L key b bs\<close>: the package signs the builder \<open>b\<close> with \<open>key\<close> and SHA-256, and
  \<open>bs\<close> is the PEM text of the certificate it returns. The fields of a certificate are the
  fields of the builder it was signed from.
\<close>

definition issued ::
  "('w, 'priv, 'pub, 'crt) backend \<Rightarrow> 'priv \<Rightarrow> 'pub builder \<Rightarrow> bytes \<Rightarrow> bool" where
  "issued L key b bs =
     (case builder_sign L key SHA256 b of
        Inl e \<Rightarrow> False
      | Inr c \<Rightarrow> bs = cert_public_bytes L PEM c)"

definition extension_values :: "extension_oid \<Rightarrow> 'pub builder \<Rightarrow> extension_value list" where
  \<comment> \<open>the values of the extensions with a given identifier\<close>
  "extension_values oid b = map ext_value (filter (\<lambda>e. ext_oid e = oid) (b_extensions b))"

definition criticality :: "'pub builder \<Rightarrow> (extension_oid \<times> bool) list" where
  \<comment> \<open>the identifier and the critical flag of every extension, in order\<close>
  "criticality b = map (\<lambda>e. (ext_oid e, critical e)) (b_extensions b)"

definition microseconds_per_day :: int where
  "microseconds_per_day = 86400000000"


text \<open>
  The two shapes of the \<^verbatim>\<open>try\<close> statements of \<^verbatim>\<open>main\<close>: a key pair kept in two
  files, and a certificate kept in one. The eight statements are instances
  (\<open>main_blocks\<close> below), so a property of a shape is proved once.
\<close>

definition keys_block ::
  "('w, 'priv, 'pub, 'crt) backend \<Rightarrow> string \<Rightarrow> string \<Rightarrow> string \<Rightarrow> string
     \<Rightarrow> ('w sys, bytes \<times> bytes) prog" where
  "keys_block L priv_file pub_file read_line create_line =
     try_except_FileNotFoundError
       (bind (read_file L priv_file) (\<lambda>priv.
        bind (read_file L pub_file) (\<lambda>pub.
        bind (print read_line) (\<lambda>_.
        return (priv, pub)))))
       (bind (print create_line) (\<lambda>_.
        bind (in_world (create_rsa_key_pair L)) (\<lambda>(priv, pub).
        bind (write_file priv_file priv) (\<lambda>_.
        bind (write_file pub_file pub) (\<lambda>_.
        return (priv, pub))))))"

definition cert_block ::
  "('w, 'priv, 'pub, 'crt) backend \<Rightarrow> string \<Rightarrow> string \<Rightarrow> string \<Rightarrow> ('w, bytes) prog
     \<Rightarrow> ('w sys, bytes) prog" where
  "cert_block L cert_file read_line create_line create =
     try_except_FileNotFoundError
       (bind (read_file L cert_file) (\<lambda>cert.
        bind (print read_line) (\<lambda>_.
        return cert)))
       (bind (print create_line) (\<lambda>_.
        bind (in_world create) (\<lambda>cert.
        bind (write_file cert_file cert) (\<lambda>_.
        return cert))))"

subsection \<open>An instance of the package interface\<close>

text \<open>
  A small backend on which the model runs on concrete stores. Keys are numbers and the world
  is a counter that every reading of the clock or the random source advances. A private key
  \<open>k\<close> prints as \<open>S\<close> followed by \<open>k\<close> letters \<open>k\<close>, a public key as \<open>P\<close> followed
  by the same, and a certificate as \<open>C\<close>, its key, a colon and the text of its subject.
  Anything else does not parse. A name without readable content is a missing file.
\<close>

definition sample_load_key :: "char \<Rightarrow> bytes \<Rightarrow> error + nat" where
  "sample_load_key tag bs =
     (case bs of
        [] \<Rightarrow> Inl ValueError
      | c # r \<Rightarrow> if c = tag \<and> r = replicate (length r) (CHR ''k'')
                 then Inr (length r) else Inl ValueError)"

definition sample_load_cert :: "bytes \<Rightarrow> error + (string \<times> nat)" where
  "sample_load_cert bs =
     (case bs of
        [] \<Rightarrow> Inl ValueError
      | c # r \<Rightarrow> if c = CHR ''C'' \<and> CHR '':'' \<in> set r
                 then Inr (tl (dropWhile (\<lambda>x. x \<noteq> CHR '':'') r),
                           length (takeWhile (\<lambda>x. x \<noteq> CHR '':'') r))
                 else Inl ValueError)"

definition sample_sign :: "nat \<Rightarrow> hash_algorithm \<Rightarrow> nat builder \<Rightarrow> error + (string \<times> nat)" where
  "sample_sign k h b =
     (case (b_subject_name b, b_public_key b) of
        (Some ((a, v) # _), Some p) \<Rightarrow> Inr (v, p)
      | _ \<Rightarrow> Inl ValueError)"

definition sample_backend :: "(nat, nat, nat, string \<times> nat) backend" where
  "sample_backend = \<lparr>
     generate_private_key = (\<lambda>e n w. (Inr (Suc w), Suc w)),
     public_key_of = (\<lambda>k. k),
     private_bytes = (\<lambda>enc fmt encr k. CHR ''S'' # replicate k (CHR ''k'')),
     public_bytes = (\<lambda>enc fmt k. CHR ''P'' # replicate k (CHR ''k'')),
     load_pem_private_key = (\<lambda>bs pw. sample_load_key (CHR ''S'') bs),
     load_pem_public_key = sample_load_key (CHR ''P''),
     load_pem_x509_certificate = sample_load_cert,
     cert_subject = (\<lambda>(v, k). [(COMMON_NAME, v)]),
     cert_public_key = snd,
     cert_public_bytes = (\<lambda>enc (v, k). CHR ''C'' # replicate k (CHR ''k'') @ CHR '':'' # v),
     key_identifier = (\<lambda>k. replicate k (CHR ''i'')),
     datetime_now = (\<lambda>w. (Inr (63900000000000000 + int w), Suc w)),
     random_serial_number = (\<lambda>w. (Inr (1 + int w), Suc w)),
     builder_sign = sample_sign,
     open_error = (\<lambda>name. FileNotFoundError) \<rparr>"


definition empty_store :: "nat sys" where
  "empty_store = \<lparr> world = 0, files = Map.empty, stdout = [] \<rparr>"

text \<open>
  The store a run of \<open>main\<close> on \<open>sample_backend\<close> leaves when it starts from no file
  at all, with nothing printed yet.
\<close>

definition provisioned_store :: "nat sys" where
  "provisioned_store = \<lparr>
     world = 12,
     files = [''root_ca_priv_key.pem'' \<mapsto> ''Sk'', ''root_ca_pub_key.pem'' \<mapsto> ''Pk'',
              ''root_cert.pem'' \<mapsto> ''Ck:Mothership Root'',
              ''signing_ca_priv_key.pem'' \<mapsto> ''Skkkk'',
              ''signing_ca_pub_key.pem'' \<mapsto> ''Pkkkk'',
              ''signing_cert.pem'' \<mapsto> ''Ckkkk:Mothership CA1'',
              ''server_priv_key.pem'' \<mapsto> ''Skkkkkkk'',
              ''server_pub_key.pem'' \<mapsto> ''Pkkkkkkk'',
              ''server_cert.pem'' \<mapsto> ''Ckkkkkkk:Mothership Server'',
              ''client_priv_key.pem'' \<mapsto> ''Skkkkkkkkkk'',
              ''client_pub_key.pem'' \<mapsto> ''Pkkkkkkkkkk'',
              ''client_cert.pem'' \<mapsto> ''Ckkkkkkkkkk:Random client''],
     stdout = [] \<rparr>"




text \<open>
  Two stores with the key pairs of the root and of the client and nothing else. They differ
  in the content of the two public-key files only.
\<close>

definition keys_only_store :: "nat sys" where
  "keys_only_store = \<lparr>
     world = 2,
     files = [''root_ca_priv_key.pem'' \<mapsto> ''Sk'', ''root_ca_pub_key.pem'' \<mapsto> ''Pk'',
              ''client_priv_key.pem'' \<mapsto> ''Skk'', ''client_pub_key.pem'' \<mapsto> ''Pkk''],
     stdout = [] \<rparr>"

definition keys_only_store_other_public :: "nat sys" where
  "keys_only_store_other_public =
     keys_only_store\<lparr>files := (files keys_only_store)
       (''root_ca_pub_key.pem'' \<mapsto> ''Pkkkkk'', ''client_pub_key.pem'' \<mapsto> ''not PEM'')\<rparr>"


text \<open>
  A store that mixes two generations of the root: the root certificate is that of the key 1,
  the root key pair is a later one (key 3), and there is nothing else. This is what is left
  of a provisioned store when the files of the root keys have been removed and created
  again, and the files after the root certificate have been removed. \<open>stale_builder\<close> is
  the builder that \<open>create_signing_cert\<close> signs in a run on this store.
\<close>

definition stale_root_store :: "nat sys" where
  "stale_root_store = \<lparr>
     world = 3,
     files = [''root_ca_priv_key.pem'' \<mapsto> ''Skkk'', ''root_ca_pub_key.pem'' \<mapsto> ''Pkkk'',
              ''root_cert.pem'' \<mapsto> ''Ck:Mothership Root''],
     stdout = [] \<rparr>"

definition stale_builder :: "nat builder" where
  "stale_builder = \<lparr>
     b_subject_name = Some INTERMEDIATE_DN,
     b_issuer_name = Some [(COMMON_NAME, ''Mothership Root'')],
     b_not_valid_before = Some 63900000000000004,
     b_not_valid_after = Some (63900000000000004 + 14 * 86400000000),
     b_serial_number = Some 6,
     b_public_key = Some 4,
     b_extensions =
       [\<lparr>ext_oid = BASIC_CONSTRAINTS, critical = True,
         ext_value = BasicConstraints True (Some 0)\<rparr>,
        \<lparr>ext_oid = KEY_USAGE, critical = True, ext_value = KeyUsage CA_KEYUSAGE\<rparr>,
        \<lparr>ext_oid = AUTHORITY_KEY_IDENTIFIER, critical = False,
         ext_value = AuthorityKeyIdentifier (Some (key_identifier sample_backend 1)) None None\<rparr>,
        \<lparr>ext_oid = SUBJECT_KEY_IDENTIFIER, critical = False,
         ext_value = SubjectKeyIdentifier (key_identifier sample_backend 4)\<rparr>] \<rparr>"

subsection \<open>Vocabulary for runs of main\<close>

text \<open>
  \<open>hoare P m Q\<close>: from a state with \<open>P\<close>, the computation \<open>m\<close> ends with a result (a value
  or an exception) and a state related by \<open>Q\<close>.
\<close>

definition hoare ::
  "('s \<Rightarrow> bool) \<Rightarrow> ('s, 'a) prog \<Rightarrow> (error + 'a \<Rightarrow> 's \<Rightarrow> bool) \<Rightarrow> bool" where
  "hoare P m Q \<longleftrightarrow> (\<forall>s. P s \<longrightarrow> Q (fst (m s)) (snd (m s)))"

text \<open>
  \<open>same_except X s t\<close>: the states \<open>s\<close> and \<open>t\<close> have the same world and output and the
  same files, but for the content of the files named in \<open>X\<close>.
\<close>

definition same_except :: "string set \<Rightarrow> 'w sys \<Rightarrow> 'w sys \<Rightarrow> bool" where
  "same_except X s t \<longleftrightarrow>
     world s = world t \<and> stdout s = stdout t
     \<and> (\<forall>f. (files s f = None) = (files t f = None))
     \<and> (\<forall>f. f \<notin> X \<longrightarrow> files s f = files t f)"

text \<open>
  \<open>rel_prog S V m n\<close>: from states related by \<open>S\<close>, the computations \<open>m\<close> and \<open>n\<close> raise
  the same exception or return values related by \<open>V\<close>, and leave states related by \<open>S\<close>.
\<close>

definition rel_prog ::
  "('s \<Rightarrow> 's \<Rightarrow> bool) \<Rightarrow> ('a \<Rightarrow> 'a \<Rightarrow> bool) \<Rightarrow> ('s, 'a) prog \<Rightarrow> ('s, 'a) prog \<Rightarrow> bool" where
  "rel_prog S V m n \<longleftrightarrow>
     (\<forall>s t. S s t \<longrightarrow>
        (case (fst (m s), fst (n t)) of
           (Inl e, Inl e') \<Rightarrow> e = e'
         | (Inr a, Inr a') \<Rightarrow> V a a'
         | _ \<Rightarrow> False)
        \<and> S (snd (m s)) (snd (n t)))"

section \<open>Properties\<close>

subsection \<open>Runs that return\<close>

lemma bind_Inr:
  "bind m f s = (Inr b, s') \<longleftrightarrow> (\<exists>a s1. m s = (Inr a, s1) \<and> f a s1 = (Inr b, s'))"
  by (auto simp: bind_def split: prod.splits sum.splits)

lemma from_result_Inr: "from_result r s = (Inr a, s') \<longleftrightarrow> r = Inr a \<and> s' = s"
  by (auto simp: from_result_def)

lemma return_Inr: "return a s = (Inr b, s') \<longleftrightarrow> b = a \<and> s' = s"
  by (auto simp: return_def)

lemma timedelta_days_Inr: "timedelta days 0 0 = Inr d \<Longrightarrow> d = days * microseconds_per_day"
  by (auto simp: timedelta_def Let_def microseconds_per_day_def split: if_splits)

lemma datetime_add_Inr: "datetime_add t d = Inr r \<Longrightarrow> r = t + d"
  by (auto simp: datetime_add_def Let_def split: if_splits)

text \<open>
  When \<open>cert_helper\<close> returns, the builder holds the two names, the reading of the clock,
  that reading plus the days, the serial number drawn after it, and the key.
\<close>

lemma cert_helper_Inr:
  assumes "cert_helper L pub subject_dn issuer_dn days w = (Inr b, w')"
  shows "\<exists>t w1 sn. datetime_now L w = (Inr t, w1) \<and> random_serial_number L w1 = (Inr sn, w')
      \<and> b = \<lparr> b_subject_name = Some subject_dn, b_issuer_name = Some issuer_dn,
              b_not_valid_before = Some t,
              b_not_valid_after = Some (t + days * microseconds_per_day),
              b_serial_number = Some sn, b_public_key = Some pub, b_extensions = [] \<rparr>"
  using assms
  unfolding cert_helper_def Let_def bind_Inr from_result_Inr return_Inr
  by (auto simp: CertificateBuilder_def subject_name_def issuer_name_def not_valid_before_def
      not_valid_after_def serial_number_def public_key_def
      dest!: timedelta_days_Inr datetime_add_Inr)

text \<open>The builder each of the four functions signs, field by field.\<close>

lemma create_root_cert_Inr:
  assumes "create_root_cert L pem days w = (Inr bs, w')"
  shows "\<exists>key t w1 sn. load_pem_private_key L pem None = Inr key
      \<and> datetime_now L w = (Inr t, w1) \<and> random_serial_number L w1 = (Inr sn, w')
      \<and> issued L key
          \<lparr> b_subject_name = Some ROOT_DN, b_issuer_name = Some ROOT_DN,
            b_not_valid_before = Some t,
            b_not_valid_after = Some (t + days * microseconds_per_day),
            b_serial_number = Some sn, b_public_key = Some (public_key_of L key),
            b_extensions =
              [\<lparr>ext_oid = BASIC_CONSTRAINTS, critical = True,
                ext_value = BasicConstraints True None\<rparr>,
               \<lparr>ext_oid = KEY_USAGE, critical = True, ext_value = KeyUsage CA_KEYUSAGE\<rparr>,
               \<lparr>ext_oid = AUTHORITY_KEY_IDENTIFIER, critical = False,
                ext_value = AuthorityKeyIdentifier
                  (Some (key_identifier L (public_key_of L key))) None None\<rparr>,
               \<lparr>ext_oid = SUBJECT_KEY_IDENTIFIER, critical = False,
                ext_value = SubjectKeyIdentifier (key_identifier L (public_key_of L key))\<rparr>] \<rparr>
          bs"
  using assms
  unfolding create_root_cert_def Let_def bind_Inr from_result_Inr return_Inr
  by (auto simp: issued_def add_extension_def from_issuer_public_key_def from_public_key_def
      dest!: cert_helper_Inr)

lemma create_signing_cert_Inr:
  assumes "create_signing_cert L pem_issuer_cert pem_private_key pem_public_key days w
             = (Inr bs, w')"
  shows "\<exists>issuer_cert key pub t w1 sn.
        load_pem_x509_certificate L pem_issuer_cert = Inr issuer_cert
      \<and> load_pem_private_key L pem_private_key None = Inr key
      \<and> load_pem_public_key L pem_public_key = Inr pub
      \<and> datetime_now L w = (Inr t, w1) \<and> random_serial_number L w1 = (Inr sn, w')
      \<and> issued L key
          \<lparr> b_subject_name = Some INTERMEDIATE_DN,
            b_issuer_name = Some (cert_subject L issuer_cert),
            b_not_valid_before = Some t,
            b_not_valid_after = Some (t + days * microseconds_per_day),
            b_serial_number = Some sn, b_public_key = Some pub,
            b_extensions =
              [\<lparr>ext_oid = BASIC_CONSTRAINTS, critical = True,
                ext_value = BasicConstraints True (Some 0)\<rparr>,
               \<lparr>ext_oid = KEY_USAGE, critical = True, ext_value = KeyUsage CA_KEYUSAGE\<rparr>,
               \<lparr>ext_oid = AUTHORITY_KEY_IDENTIFIER, critical = False,
                ext_value = AuthorityKeyIdentifier
                  (Some (key_identifier L (cert_public_key L issuer_cert))) None None\<rparr>,
               \<lparr>ext_oid = SUBJECT_KEY_IDENTIFIER, critical = False,
                ext_value = SubjectKeyIdentifier (key_identifier L pub)\<rparr>] \<rparr>
          bs"
  using assms
  unfolding create_signing_cert_def Let_def bind_Inr from_result_Inr return_Inr
  by (auto simp: issued_def add_extension_def from_issuer_public_key_def from_public_key_def
      dest!: cert_helper_Inr)

lemma create_server_cert_Inr:
  assumes "create_server_cert L pem_issuer_cert pem_private_key pem_public_key days w
             = (Inr bs, w')"
  shows "\<exists>issuer_cert key pub t w1 sn.
        load_pem_x509_certificate L pem_issuer_cert = Inr issuer_cert
      \<and> load_pem_private_key L pem_private_key None = Inr key
      \<and> load_pem_public_key L pem_public_key = Inr pub
      \<and> datetime_now L w = (Inr t, w1) \<and> random_serial_number L w1 = (Inr sn, w')
      \<and> issued L key
          \<lparr> b_subject_name = Some SERVER_DN,
            b_issuer_name = Some (cert_subject L issuer_cert),
            b_not_valid_before = Some t,
            b_not_valid_after = Some (t + days * microseconds_per_day),
            b_serial_number = Some sn, b_public_key = Some pub,
            b_extensions =
              [\<lparr>ext_oid = SUBJECT_ALTERNATIVE_NAME, critical = True,
                ext_value = SubjectAlternativeName [DNSName ''mothership_server'']\<rparr>,
               \<lparr>ext_oid = BASIC_CONSTRAINTS, critical = True,
                ext_value = BasicConstraints False None\<rparr>,
               \<lparr>ext_oid = KEY_USAGE, critical = True, ext_value = KeyUsage ENTITY_KEYUSAGE\<rparr>,
               \<lparr>ext_oid = EXTENDED_KEY_USAGE, critical = True,
                ext_value = ExtendedKeyUsage SERVER_EXTKEYUSAGE\<rparr>,
               \<lparr>ext_oid = AUTHORITY_KEY_IDENTIFIER, critical = False,
                ext_value = AuthorityKeyIdentifier
                  (Some (key_identifier L (cert_public_key L issuer_cert))) None None\<rparr>,
               \<lparr>ext_oid = SUBJECT_KEY_IDENTIFIER, critical = False,
                ext_value = SubjectKeyIdentifier (key_identifier L pub)\<rparr>] \<rparr>
          bs"
  using assms
  unfolding create_server_cert_def Let_def bind_Inr from_result_Inr return_Inr
  by (auto simp: issued_def add_extension_def from_issuer_public_key_def from_public_key_def
      dest!: cert_helper_Inr)

lemma create_selfsigned_client_cert_Inr:
  assumes "create_selfsigned_client_cert L pem days w = (Inr bs, w')"
  shows "\<exists>key t w1 sn. load_pem_private_key L pem None = Inr key
      \<and> datetime_now L w = (Inr t, w1) \<and> random_serial_number L w1 = (Inr sn, w')
      \<and> issued L key
          \<lparr> b_subject_name = Some CLIENT_DN, b_issuer_name = Some CLIENT_DN,
            b_not_valid_before = Some t,
            b_not_valid_after = Some (t + days * microseconds_per_day),
            b_serial_number = Some sn, b_public_key = Some (public_key_of L key),
            b_extensions =
              [\<lparr>ext_oid = SUBJECT_ALTERNATIVE_NAME, critical = True,
                ext_value = SubjectAlternativeName
                  [DirectoryName [(SERIAL_NUMBER, ''device_0001'')]]\<rparr>,
               \<lparr>ext_oid = BASIC_CONSTRAINTS, critical = True,
                ext_value = BasicConstraints False None\<rparr>,
               \<lparr>ext_oid = KEY_USAGE, critical = True,
                ext_value = KeyUsage SELFSIGNED_ENTITY_KEYUSAGE\<rparr>,
               \<lparr>ext_oid = EXTENDED_KEY_USAGE, critical = True,
                ext_value = ExtendedKeyUsage CLIENT_EXTKEYUSAGE\<rparr>,
               \<lparr>ext_oid = AUTHORITY_KEY_IDENTIFIER, critical = False,
                ext_value = AuthorityKeyIdentifier
                  (Some (key_identifier L (public_key_of L key))) None None\<rparr>,
               \<lparr>ext_oid = SUBJECT_KEY_IDENTIFIER, critical = False,
                ext_value = SubjectKeyIdentifier (key_identifier L (public_key_of L key))\<rparr>] \<rparr>
          bs"
  using assms
  unfolding create_selfsigned_client_cert_def Let_def bind_Inr from_result_Inr return_Inr
  by (auto simp: issued_def add_extension_def from_issuer_public_key_def from_public_key_def
      dest!: cert_helper_Inr)

subsection \<open>Runs on the sample backend\<close>

lemma replicate_numeral: "replicate (numeral k) x = x # replicate (pred_numeral k) x"
  by (simp add: numeral_eq_Suc)

lemmas sample_simps = replicate_numeral
  sample_backend_def sample_load_key_def sample_load_cert_def sample_sign_def
  create_root_cert_def create_signing_cert_def create_server_cert_def
  create_selfsigned_client_cert_def create_rsa_key_pair_def cert_helper_def
  bind_def return_def from_result_def Let_def timedelta_def datetime_add_def DATETIME_MAX_def
  CertificateBuilder_def subject_name_def issuer_name_def not_valid_before_def
  not_valid_after_def serial_number_def public_key_def add_extension_def
  ROOT_DN_def INTERMEDIATE_DN_def SERVER_DN_def CLIENT_DN_def

lemma sample_root:
  "create_root_cert sample_backend ''Sk'' 365 1 = (Inr ''Ck:Mothership Root'', 3)"
  by (simp add: sample_simps)

lemma sample_signing:
  "create_signing_cert sample_backend ''Ck:Mothership Root'' ''Sk'' ''Pkkkk'' 14 4
     = (Inr ''Ckkkk:Mothership CA1'', 6)"
  by (simp add: sample_simps)

lemma sample_server:
  "create_server_cert sample_backend ''Ckkkk:Mothership CA1'' ''Skkkk'' ''Pkkkkkkk'' 14 7
     = (Inr ''Ckkkkkkk:Mothership Server'', 9)"
  by (simp add: sample_simps)

lemma sample_client:
  "create_selfsigned_client_cert sample_backend ''Skkkkkkkkkk'' 14 10
     = (Inr ''Ckkkkkkkkkk:Random client'', 12)"
  by (simp add: sample_simps)

subsection \<open>Basic constraints\<close>

text \<open>
  C4. BasicConstraints by role: the root certificate has ca = true and no path length, the
  intermediate certificate ca = true and path length 0, the server and the client
  certificate ca = false. Each certificate has exactly one such extension.
\<close>

theorem basic_constraints_by_role:
  "(create_root_cert L pem days w = (Inr bs, w') \<longrightarrow>
      (\<exists>key b. issued L key b bs
         \<and> extension_values BASIC_CONSTRAINTS b = [BasicConstraints True None]))
 \<and> (create_signing_cert L pem_issuer_cert pem pem_public_key days w = (Inr bs, w') \<longrightarrow>
      (\<exists>key b. issued L key b bs
         \<and> extension_values BASIC_CONSTRAINTS b = [BasicConstraints True (Some 0)]))
 \<and> (create_server_cert L pem_issuer_cert pem pem_public_key days w = (Inr bs, w') \<longrightarrow>
      (\<exists>key b. issued L key b bs
         \<and> extension_values BASIC_CONSTRAINTS b = [BasicConstraints False None]))
 \<and> (create_selfsigned_client_cert L pem days w = (Inr bs, w') \<longrightarrow>
      (\<exists>key b. issued L key b bs
         \<and> extension_values BASIC_CONSTRAINTS b = [BasicConstraints False None]))"
proof (intro conjI impI)
  assume "create_root_cert L pem days w = (Inr bs, w')"
  from create_root_cert_Inr [OF this]
  show "\<exists>key b. issued L key b bs
         \<and> extension_values BASIC_CONSTRAINTS b = [BasicConstraints True None]"
    by (fastforce simp: extension_values_def)
next
  assume "create_signing_cert L pem_issuer_cert pem pem_public_key days w = (Inr bs, w')"
  from create_signing_cert_Inr [OF this]
  show "\<exists>key b. issued L key b bs
         \<and> extension_values BASIC_CONSTRAINTS b = [BasicConstraints True (Some 0)]"
    by (fastforce simp: extension_values_def)
next
  assume "create_server_cert L pem_issuer_cert pem pem_public_key days w = (Inr bs, w')"
  from create_server_cert_Inr [OF this]
  show "\<exists>key b. issued L key b bs
         \<and> extension_values BASIC_CONSTRAINTS b = [BasicConstraints False None]"
    by (fastforce simp: extension_values_def)
next
  assume "create_selfsigned_client_cert L pem days w = (Inr bs, w')"
  from create_selfsigned_client_cert_Inr [OF this]
  show "\<exists>key b. issued L key b bs
         \<and> extension_values BASIC_CONSTRAINTS b = [BasicConstraints False None]"
    by (fastforce simp: extension_values_def)
qed

theorem basic_constraints_by_role_witness:
  "create_root_cert sample_backend ''Sk'' 365 1 = (Inr ''Ck:Mothership Root'', 3)
 \<and> (\<exists>key b. issued sample_backend key b ''Ck:Mothership Root''
       \<and> extension_values BASIC_CONSTRAINTS b = [BasicConstraints True None])
 \<and> create_signing_cert sample_backend ''Ck:Mothership Root'' ''Sk'' ''Pkkkk'' 14 4
      = (Inr ''Ckkkk:Mothership CA1'', 6)
 \<and> (\<exists>key b. issued sample_backend key b ''Ckkkk:Mothership CA1''
       \<and> extension_values BASIC_CONSTRAINTS b = [BasicConstraints True (Some 0)])
 \<and> create_server_cert sample_backend ''Ckkkk:Mothership CA1'' ''Skkkk'' ''Pkkkkkkk'' 14 7
      = (Inr ''Ckkkkkkk:Mothership Server'', 9)
 \<and> (\<exists>key b. issued sample_backend key b ''Ckkkkkkk:Mothership Server''
       \<and> extension_values BASIC_CONSTRAINTS b = [BasicConstraints False None])
 \<and> create_selfsigned_client_cert sample_backend ''Skkkkkkkkkk'' 14 10
      = (Inr ''Ckkkkkkkkkk:Random client'', 12)
 \<and> (\<exists>key b. issued sample_backend key b ''Ckkkkkkkkkk:Random client''
       \<and> extension_values BASIC_CONSTRAINTS b = [BasicConstraints False None])"
proof -
  note t = basic_constraints_by_role [where L = sample_backend]
  from t [where pem = "''Sk''" and days = 365 and w = 1] sample_root
  have 1: "\<exists>key b. issued sample_backend key b ''Ck:Mothership Root''
       \<and> extension_values BASIC_CONSTRAINTS b = [BasicConstraints True None]"
    by blast
  from t [where pem_issuer_cert = "''Ck:Mothership Root''" and pem = "''Sk''"
      and pem_public_key = "''Pkkkk''" and days = 14 and w = 4] sample_signing
  have 2: "\<exists>key b. issued sample_backend key b ''Ckkkk:Mothership CA1''
       \<and> extension_values BASIC_CONSTRAINTS b = [BasicConstraints True (Some 0)]"
    by blast
  from t [where pem_issuer_cert = "''Ckkkk:Mothership CA1''" and pem = "''Skkkk''"
      and pem_public_key = "''Pkkkkkkk''" and days = 14 and w = 7] sample_server
  have 3: "\<exists>key b. issued sample_backend key b ''Ckkkkkkk:Mothership Server''
       \<and> extension_values BASIC_CONSTRAINTS b = [BasicConstraints False None]"
    by blast
  from t [where pem = "''Skkkkkkkkkk''" and days = 14 and w = 10] sample_client
  have 4: "\<exists>key b. issued sample_backend key b ''Ckkkkkkkkkk:Random client''
       \<and> extension_values BASIC_CONSTRAINTS b = [BasicConstraints False None]"
    by blast
  from 1 2 3 4 sample_root sample_signing sample_server sample_client
  show ?thesis by blast
qed

subsection \<open>Key usage\<close>

text \<open>
  Each certificate has exactly one KeyUsage extension, the constant of its role:
  digitalSignature, keyCertSign and cRLSign for the root and the intermediate certificate;
  digitalSignature and keyEncipherment for the server certificate; digitalSignature,
  keyEncipherment and keyCertSign for the client certificate; every other bit unset.
\<close>

lemma key_usage_by_role:
  "(create_root_cert L pem days w = (Inr bs, w') \<longrightarrow>
      (\<exists>key b. issued L key b bs
         \<and> extension_values KEY_USAGE b =
             [KeyUsage \<lparr> digital_signature = True, content_commitment = False,
                key_encipherment = False, data_encipherment = False, key_agreement = False,
                key_cert_sign = True, crl_sign = True, encipher_only = False,
                decipher_only = False \<rparr>]))
 \<and> (create_signing_cert L pem_issuer_cert pem pem_public_key days w = (Inr bs, w') \<longrightarrow>
      (\<exists>key b. issued L key b bs
         \<and> extension_values KEY_USAGE b =
             [KeyUsage \<lparr> digital_signature = True, content_commitment = False,
                key_encipherment = False, data_encipherment = False, key_agreement = False,
                key_cert_sign = True, crl_sign = True, encipher_only = False,
                decipher_only = False \<rparr>]))
 \<and> (create_server_cert L pem_issuer_cert pem pem_public_key days w = (Inr bs, w') \<longrightarrow>
      (\<exists>key b. issued L key b bs
         \<and> extension_values KEY_USAGE b =
             [KeyUsage \<lparr> digital_signature = True, content_commitment = False,
                key_encipherment = True, data_encipherment = False, key_agreement = False,
                key_cert_sign = False, crl_sign = False, encipher_only = False,
                decipher_only = False \<rparr>]))
 \<and> (create_selfsigned_client_cert L pem days w = (Inr bs, w') \<longrightarrow>
      (\<exists>key b. issued L key b bs
         \<and> extension_values KEY_USAGE b =
             [KeyUsage \<lparr> digital_signature = True, content_commitment = False,
                key_encipherment = True, data_encipherment = False, key_agreement = False,
                key_cert_sign = True, crl_sign = False, encipher_only = False,
                decipher_only = False \<rparr>]))"
proof (intro conjI impI)
  assume "create_root_cert L pem days w = (Inr bs, w')"
  from create_root_cert_Inr [OF this]
  show "\<exists>key b. issued L key b bs
         \<and> extension_values KEY_USAGE b =
             [KeyUsage \<lparr> digital_signature = True, content_commitment = False,
                key_encipherment = False, data_encipherment = False, key_agreement = False,
                key_cert_sign = True, crl_sign = True, encipher_only = False,
                decipher_only = False \<rparr>]"
    by (fastforce simp: extension_values_def CA_KEYUSAGE_def)
next
  assume "create_signing_cert L pem_issuer_cert pem pem_public_key days w = (Inr bs, w')"
  from create_signing_cert_Inr [OF this]
  show "\<exists>key b. issued L key b bs
         \<and> extension_values KEY_USAGE b =
             [KeyUsage \<lparr> digital_signature = True, content_commitment = False,
                key_encipherment = False, data_encipherment = False, key_agreement = False,
                key_cert_sign = True, crl_sign = True, encipher_only = False,
                decipher_only = False \<rparr>]"
    by (fastforce simp: extension_values_def CA_KEYUSAGE_def)
next
  assume "create_server_cert L pem_issuer_cert pem pem_public_key days w = (Inr bs, w')"
  from create_server_cert_Inr [OF this]
  show "\<exists>key b. issued L key b bs
         \<and> extension_values KEY_USAGE b =
             [KeyUsage \<lparr> digital_signature = True, content_commitment = False,
                key_encipherment = True, data_encipherment = False, key_agreement = False,
                key_cert_sign = False, crl_sign = False, encipher_only = False,
                decipher_only = False \<rparr>]"
    by (fastforce simp: extension_values_def ENTITY_KEYUSAGE_def)
next
  assume "create_selfsigned_client_cert L pem days w = (Inr bs, w')"
  from create_selfsigned_client_cert_Inr [OF this]
  show "\<exists>key b. issued L key b bs
         \<and> extension_values KEY_USAGE b =
             [KeyUsage \<lparr> digital_signature = True, content_commitment = False,
                key_encipherment = True, data_encipherment = False, key_agreement = False,
                key_cert_sign = True, crl_sign = False, encipher_only = False,
                decipher_only = False \<rparr>]"
    by (fastforce simp: extension_values_def SELFSIGNED_ENTITY_KEYUSAGE_def)
qed

lemma key_usage_by_role_sample:
  "create_root_cert sample_backend ''Sk'' 365 1 = (Inr ''Ck:Mothership Root'', 3)
 \<and> (\<exists>key b. issued sample_backend key b ''Ck:Mothership Root''
       \<and> extension_values KEY_USAGE b = [KeyUsage CA_KEYUSAGE])
 \<and> create_signing_cert sample_backend ''Ck:Mothership Root'' ''Sk'' ''Pkkkk'' 14 4
      = (Inr ''Ckkkk:Mothership CA1'', 6)
 \<and> (\<exists>key b. issued sample_backend key b ''Ckkkk:Mothership CA1''
       \<and> extension_values KEY_USAGE b = [KeyUsage CA_KEYUSAGE])
 \<and> create_server_cert sample_backend ''Ckkkk:Mothership CA1'' ''Skkkk'' ''Pkkkkkkk'' 14 7
      = (Inr ''Ckkkkkkk:Mothership Server'', 9)
 \<and> (\<exists>key b. issued sample_backend key b ''Ckkkkkkk:Mothership Server''
       \<and> extension_values KEY_USAGE b = [KeyUsage ENTITY_KEYUSAGE])
 \<and> create_selfsigned_client_cert sample_backend ''Skkkkkkkkkk'' 14 10
      = (Inr ''Ckkkkkkkkkk:Random client'', 12)
 \<and> (\<exists>key b. issued sample_backend key b ''Ckkkkkkkkkk:Random client''
       \<and> extension_values KEY_USAGE b = [KeyUsage SELFSIGNED_ENTITY_KEYUSAGE])"
proof -
  note t = key_usage_by_role [where L = sample_backend]
  from t [where pem = "''Sk''" and days = 365 and w = 1] sample_root
  have 1: "\<exists>key b. issued sample_backend key b ''Ck:Mothership Root''
       \<and> extension_values KEY_USAGE b = [KeyUsage CA_KEYUSAGE]"
    unfolding CA_KEYUSAGE_def by blast
  from t [where pem_issuer_cert = "''Ck:Mothership Root''" and pem = "''Sk''"
      and pem_public_key = "''Pkkkk''" and days = 14 and w = 4] sample_signing
  have 2: "\<exists>key b. issued sample_backend key b ''Ckkkk:Mothership CA1''
       \<and> extension_values KEY_USAGE b = [KeyUsage CA_KEYUSAGE]"
    unfolding CA_KEYUSAGE_def by blast
  from t [where pem_issuer_cert = "''Ckkkk:Mothership CA1''" and pem = "''Skkkk''"
      and pem_public_key = "''Pkkkkkkk''" and days = 14 and w = 7] sample_server
  have 3: "\<exists>key b. issued sample_backend key b ''Ckkkkkkk:Mothership Server''
       \<and> extension_values KEY_USAGE b = [KeyUsage ENTITY_KEYUSAGE]"
    unfolding ENTITY_KEYUSAGE_def by blast
  from t [where pem = "''Skkkkkkkkkk''" and days = 14 and w = 10] sample_client
  have 4: "\<exists>key b. issued sample_backend key b ''Ckkkkkkkkkk:Random client''
       \<and> extension_values KEY_USAGE b = [KeyUsage SELFSIGNED_ENTITY_KEYUSAGE]"
    unfolding SELFSIGNED_ENTITY_KEYUSAGE_def by blast
  from 1 2 3 4 sample_root sample_signing sample_server sample_client
  show ?thesis by blast
qed



subsection \<open>Criticality\<close>

text \<open>
  C6. The extensions of each certificate, in the order they are added, with their critical
  flags: BasicConstraints and KeyUsage are critical in all four certificates,
  SubjectAlternativeName and ExtendedKeyUsage are critical in the server and the client
  certificate (the two CA certificates have neither), and the authority and subject key
  identifiers are not critical in any.
\<close>

theorem criticality_by_role:
  "(create_root_cert L pem days w = (Inr bs, w') \<longrightarrow>
      (\<exists>key b. issued L key b bs
         \<and> criticality b =
             [(BASIC_CONSTRAINTS, True), (KEY_USAGE, True),
              (AUTHORITY_KEY_IDENTIFIER, False), (SUBJECT_KEY_IDENTIFIER, False)]))
 \<and> (create_signing_cert L pem_issuer_cert pem pem_public_key days w = (Inr bs, w') \<longrightarrow>
      (\<exists>key b. issued L key b bs
         \<and> criticality b =
             [(BASIC_CONSTRAINTS, True), (KEY_USAGE, True),
              (AUTHORITY_KEY_IDENTIFIER, False), (SUBJECT_KEY_IDENTIFIER, False)]))
 \<and> (create_server_cert L pem_issuer_cert pem pem_public_key days w = (Inr bs, w') \<longrightarrow>
      (\<exists>key b. issued L key b bs
         \<and> criticality b =
             [(SUBJECT_ALTERNATIVE_NAME, True), (BASIC_CONSTRAINTS, True), (KEY_USAGE, True),
              (EXTENDED_KEY_USAGE, True),
              (AUTHORITY_KEY_IDENTIFIER, False), (SUBJECT_KEY_IDENTIFIER, False)]))
 \<and> (create_selfsigned_client_cert L pem days w = (Inr bs, w') \<longrightarrow>
      (\<exists>key b. issued L key b bs
         \<and> criticality b =
             [(SUBJECT_ALTERNATIVE_NAME, True), (BASIC_CONSTRAINTS, True), (KEY_USAGE, True),
              (EXTENDED_KEY_USAGE, True),
              (AUTHORITY_KEY_IDENTIFIER, False), (SUBJECT_KEY_IDENTIFIER, False)]))"
proof (intro conjI impI)
  assume "create_root_cert L pem days w = (Inr bs, w')"
  from create_root_cert_Inr [OF this]
  show "\<exists>key b. issued L key b bs
         \<and> criticality b =
             [(BASIC_CONSTRAINTS, True), (KEY_USAGE, True),
              (AUTHORITY_KEY_IDENTIFIER, False), (SUBJECT_KEY_IDENTIFIER, False)]"
    by (fastforce simp: criticality_def)
next
  assume "create_signing_cert L pem_issuer_cert pem pem_public_key days w = (Inr bs, w')"
  from create_signing_cert_Inr [OF this]
  show "\<exists>key b. issued L key b bs
         \<and> criticality b =
             [(BASIC_CONSTRAINTS, True), (KEY_USAGE, True),
              (AUTHORITY_KEY_IDENTIFIER, False), (SUBJECT_KEY_IDENTIFIER, False)]"
    by (fastforce simp: criticality_def)
next
  assume "create_server_cert L pem_issuer_cert pem pem_public_key days w = (Inr bs, w')"
  from create_server_cert_Inr [OF this]
  show "\<exists>key b. issued L key b bs
         \<and> criticality b =
             [(SUBJECT_ALTERNATIVE_NAME, True), (BASIC_CONSTRAINTS, True), (KEY_USAGE, True),
              (EXTENDED_KEY_USAGE, True),
              (AUTHORITY_KEY_IDENTIFIER, False), (SUBJECT_KEY_IDENTIFIER, False)]"
    by (fastforce simp: criticality_def)
next
  assume "create_selfsigned_client_cert L pem days w = (Inr bs, w')"
  from create_selfsigned_client_cert_Inr [OF this]
  show "\<exists>key b. issued L key b bs
         \<and> criticality b =
             [(SUBJECT_ALTERNATIVE_NAME, True), (BASIC_CONSTRAINTS, True), (KEY_USAGE, True),
              (EXTENDED_KEY_USAGE, True),
              (AUTHORITY_KEY_IDENTIFIER, False), (SUBJECT_KEY_IDENTIFIER, False)]"
    by (fastforce simp: criticality_def)
qed

theorem criticality_by_role_witness:
  "create_root_cert sample_backend ''Sk'' 365 1 = (Inr ''Ck:Mothership Root'', 3)
 \<and> (\<exists>key b. issued sample_backend key b ''Ck:Mothership Root''
       \<and> criticality b =
           [(BASIC_CONSTRAINTS, True), (KEY_USAGE, True),
            (AUTHORITY_KEY_IDENTIFIER, False), (SUBJECT_KEY_IDENTIFIER, False)])
 \<and> create_signing_cert sample_backend ''Ck:Mothership Root'' ''Sk'' ''Pkkkk'' 14 4
      = (Inr ''Ckkkk:Mothership CA1'', 6)
 \<and> (\<exists>key b. issued sample_backend key b ''Ckkkk:Mothership CA1''
       \<and> criticality b =
           [(BASIC_CONSTRAINTS, True), (KEY_USAGE, True),
            (AUTHORITY_KEY_IDENTIFIER, False), (SUBJECT_KEY_IDENTIFIER, False)])
 \<and> create_server_cert sample_backend ''Ckkkk:Mothership CA1'' ''Skkkk'' ''Pkkkkkkk'' 14 7
      = (Inr ''Ckkkkkkk:Mothership Server'', 9)
 \<and> (\<exists>key b. issued sample_backend key b ''Ckkkkkkk:Mothership Server''
       \<and> criticality b =
           [(SUBJECT_ALTERNATIVE_NAME, True), (BASIC_CONSTRAINTS, True), (KEY_USAGE, True),
            (EXTENDED_KEY_USAGE, True),
            (AUTHORITY_KEY_IDENTIFIER, False), (SUBJECT_KEY_IDENTIFIER, False)])
 \<and> create_selfsigned_client_cert sample_backend ''Skkkkkkkkkk'' 14 10
      = (Inr ''Ckkkkkkkkkk:Random client'', 12)
 \<and> (\<exists>key b. issued sample_backend key b ''Ckkkkkkkkkk:Random client''
       \<and> criticality b =
           [(SUBJECT_ALTERNATIVE_NAME, True), (BASIC_CONSTRAINTS, True), (KEY_USAGE, True),
            (EXTENDED_KEY_USAGE, True),
            (AUTHORITY_KEY_IDENTIFIER, False), (SUBJECT_KEY_IDENTIFIER, False)])"
proof -
  note t = criticality_by_role [where L = sample_backend]
  from t [where pem = "''Sk''" and days = 365 and w = 1] sample_root
  have 1: "\<exists>key b. issued sample_backend key b ''Ck:Mothership Root''
       \<and> criticality b =
           [(BASIC_CONSTRAINTS, True), (KEY_USAGE, True),
            (AUTHORITY_KEY_IDENTIFIER, False), (SUBJECT_KEY_IDENTIFIER, False)]"
    by blast
  from t [where pem_issuer_cert = "''Ck:Mothership Root''" and pem = "''Sk''"
      and pem_public_key = "''Pkkkk''" and days = 14 and w = 4] sample_signing
  have 2: "\<exists>key b. issued sample_backend key b ''Ckkkk:Mothership CA1''
       \<and> criticality b =
           [(BASIC_CONSTRAINTS, True), (KEY_USAGE, True),
            (AUTHORITY_KEY_IDENTIFIER, False), (SUBJECT_KEY_IDENTIFIER, False)]"
    by blast
  from t [where pem_issuer_cert = "''Ckkkk:Mothership CA1''" and pem = "''Skkkk''"
      and pem_public_key = "''Pkkkkkkk''" and days = 14 and w = 7] sample_server
  have 3: "\<exists>key b. issued sample_backend key b ''Ckkkkkkk:Mothership Server''
       \<and> criticality b =
           [(SUBJECT_ALTERNATIVE_NAME, True), (BASIC_CONSTRAINTS, True), (KEY_USAGE, True),
            (EXTENDED_KEY_USAGE, True),
            (AUTHORITY_KEY_IDENTIFIER, False), (SUBJECT_KEY_IDENTIFIER, False)]"
    by blast
  from t [where pem = "''Skkkkkkkkkk''" and days = 14 and w = 10] sample_client
  have 4: "\<exists>key b. issued sample_backend key b ''Ckkkkkkkkkk:Random client''
       \<and> criticality b =
           [(SUBJECT_ALTERNATIVE_NAME, True), (BASIC_CONSTRAINTS, True), (KEY_USAGE, True),
            (EXTENDED_KEY_USAGE, True),
            (AUTHORITY_KEY_IDENTIFIER, False), (SUBJECT_KEY_IDENTIFIER, False)]"
    by blast
  from 1 2 3 4 sample_root sample_signing sample_server sample_client
  show ?thesis by blast
qed

subsection \<open>Key pairs\<close>

text \<open>
  C8. \<open>create_rsa_key_pair\<close> takes nothing but the state of the world. It asks the package
  for a private key with public exponent 65537 and key size 2048; when the package raises,
  so does the call, and otherwise it returns that key as PEM in PKCS8 without encryption and
  the public key of that key as PEM in PKCS1.
\<close>

theorem key_pair_generation:
  "create_rsa_key_pair L w =
     (case generate_private_key L 65537 2048 w of
        (Inl e, w') \<Rightarrow> (Inl e, w')
      | (Inr key, w') \<Rightarrow>
          (Inr (private_bytes L PEM PKCS8 NoEncryption key,
                public_bytes L PEM PKCS1 (public_key_of L key)), w'))"
  by (simp add: create_rsa_key_pair_def bind_def return_def Let_def
      split: prod.splits sum.splits)

subsection \<open>The blocks of main\<close>

lemma main_root_keys_block:
  "main_root_keys L = keys_block L ''root_ca_priv_key.pem'' ''root_ca_pub_key.pem''
     ''read root CA keys.'' ''Creating new root keys.''"
  by (simp add: main_root_keys_def keys_block_def)

lemma main_signing_keys_block:
  "main_signing_keys L = keys_block L ''signing_ca_priv_key.pem'' ''signing_ca_pub_key.pem''
     ''read signing keys.'' ''Creating new signing CA keys.''"
  by (simp add: main_signing_keys_def keys_block_def)

lemma main_server_keys_block:
  "main_server_keys L = keys_block L ''server_priv_key.pem'' ''server_pub_key.pem''
     ''read server keys.'' ''Creating new server keys.''"
  by (simp add: main_server_keys_def keys_block_def)

lemma main_client_keys_block:
  "main_client_keys L = keys_block L ''client_priv_key.pem'' ''client_pub_key.pem''
     ''read client keys.'' ''Creating new client keys.''"
  by (simp add: main_client_keys_def keys_block_def)

lemma main_root_cert_block:
  "main_root_cert L root_ca_priv_key = cert_block L ''root_cert.pem''
     ''read root certificate.'' ''Creating new root certificate.''
     (create_root_cert L root_ca_priv_key 365)"
  by (simp add: main_root_cert_def cert_block_def)

lemma main_signing_cert_block:
  "main_signing_cert L root_cert root_ca_priv_key signing_ca_pub_key =
     cert_block L ''signing_cert.pem''
       ''read signing certificate.'' ''Creating new signing certificate.''
       (create_signing_cert L root_cert root_ca_priv_key signing_ca_pub_key 14)"
  by (simp add: main_signing_cert_def cert_block_def)

lemma main_server_cert_block:
  "main_server_cert L signing_cert signing_ca_priv_key server_pub_key =
     cert_block L ''server_cert.pem''
       ''read server certificate.'' ''Creating new server certificate.''
       (create_server_cert L signing_cert signing_ca_priv_key server_pub_key 14)"
  by (simp add: main_server_cert_def cert_block_def)

lemma main_client_cert_block:
  "main_client_cert L client_priv_key = cert_block L ''client_cert.pem''
     ''read client certificate.'' ''Creating new client certificate.''
     (create_selfsigned_client_cert L client_priv_key 14)"
  by (simp add: main_client_cert_def cert_block_def)

lemmas main_blocks =
  main_root_keys_block main_root_cert_block main_signing_keys_block main_signing_cert_block
  main_server_keys_block main_server_cert_block main_client_keys_block main_client_cert_block

text \<open>
  What a block does. With its files in the store it returns their content and prints; the
  world and the files stay. When the first of its files that cannot be read is a missing
  file, it prints, calls the creating function on the world, and writes what that returns.
  When that file is there and cannot be read, the exception of \<^verbatim>\<open>open\<close> leaves the block
  and nothing else happens.
\<close>

lemma keys_block_present:
  "files s P = Some p \<Longrightarrow> files s U = Some u \<Longrightarrow>
   keys_block L P U rl cl s = (Inr (p, u), s\<lparr>stdout := stdout s @ [rl]\<rparr>)"
  by (simp add: keys_block_def try_except_FileNotFoundError_def bind_def read_file_def
      print_def return_def)

lemma keys_block_absent:
  "(files s P = None \<and> open_error L P = FileNotFoundError)
     \<or> (files s P \<noteq> None \<and> files s U = None \<and> open_error L U = FileNotFoundError) \<Longrightarrow>
   keys_block L P U rl cl s =
     (case create_rsa_key_pair L (world s) of
        (Inl e, w') \<Rightarrow> (Inl e, s\<lparr>world := w', stdout := stdout s @ [cl]\<rparr>)
      | (Inr (p, u), w') \<Rightarrow>
          (Inr (p, u), s\<lparr>world := w', files := (files s)(P \<mapsto> p, U \<mapsto> u),
                          stdout := stdout s @ [cl]\<rparr>))"
  by (auto simp: keys_block_def try_except_FileNotFoundError_def bind_def read_file_def
      print_def return_def in_world_def write_file_def
      split: option.splits prod.splits sum.splits)

lemma keys_block_raises:
  "(files s P = None \<and> open_error L P = e)
     \<or> (files s P \<noteq> None \<and> files s U = None \<and> open_error L U = e) \<Longrightarrow>
   e \<noteq> FileNotFoundError \<Longrightarrow> keys_block L P U rl cl s = (Inl e, s)"
  by (auto simp: keys_block_def try_except_FileNotFoundError_def bind_def read_file_def
      split: option.splits)

lemma cert_block_present:
  "files s F = Some c \<Longrightarrow>
   cert_block L F rl cl create s = (Inr c, s\<lparr>stdout := stdout s @ [rl]\<rparr>)"
  by (simp add: cert_block_def try_except_FileNotFoundError_def bind_def read_file_def
      print_def return_def)

lemma cert_block_absent:
  "files s F = None \<Longrightarrow> open_error L F = FileNotFoundError \<Longrightarrow>
   cert_block L F rl cl create s =
     (case create (world s) of
        (Inl e, w') \<Rightarrow> (Inl e, s\<lparr>world := w', stdout := stdout s @ [cl]\<rparr>)
      | (Inr c, w') \<Rightarrow>
          (Inr c, s\<lparr>world := w', files := (files s)(F \<mapsto> c), stdout := stdout s @ [cl]\<rparr>))"
  by (auto simp: cert_block_def try_except_FileNotFoundError_def bind_def read_file_def
      print_def return_def in_world_def write_file_def
      split: option.splits prod.splits sum.splits)

lemma cert_block_raises:
  "files s F = None \<Longrightarrow> open_error L F \<noteq> FileNotFoundError \<Longrightarrow>
   cert_block L F rl cl create s = (Inl (open_error L F), s)"
  by (simp add: cert_block_def try_except_FileNotFoundError_def bind_def read_file_def)

lemma keys_block_if:
  "keys_block L P U rl cl s =
     (if files s P \<noteq> None \<and> files s U \<noteq> None
      then (Inr (the (files s P), the (files s U)), s\<lparr>stdout := stdout s @ [rl]\<rparr>)
      else if open_error L (if files s P = None then P else U) = FileNotFoundError
      then (case create_rsa_key_pair L (world s) of
              (Inl e, w') \<Rightarrow> (Inl e, s\<lparr>world := w', stdout := stdout s @ [cl]\<rparr>)
            | (Inr (p, u), w') \<Rightarrow>
                (Inr (p, u), s\<lparr>world := w', files := (files s)(P \<mapsto> p, U \<mapsto> u),
                                stdout := stdout s @ [cl]\<rparr>))
      else (Inl (open_error L (if files s P = None then P else U)), s))"
proof (cases "files s P \<noteq> None \<and> files s U \<noteq> None")
  case True
  then obtain p u where "files s P = Some p" "files s U = Some u" by auto
  then show ?thesis by (simp add: keys_block_present)
next
  case False
  let ?f = "if files s P = None then P else U"
  from False have n: "(files s P = None \<and> open_error L P = open_error L ?f)
     \<or> (files s P \<noteq> None \<and> files s U = None \<and> open_error L U = open_error L ?f)"
    by auto
  show ?thesis
  proof (cases "open_error L ?f = FileNotFoundError")
    case True
    with n have a: "(files s P = None \<and> open_error L P = FileNotFoundError)
     \<or> (files s P \<noteq> None \<and> files s U = None \<and> open_error L U = FileNotFoundError)"
      by auto
    show ?thesis
      by (subst if_not_P [OF False], subst if_P [OF True]) (rule keys_block_absent [OF a])
  next
    case e: False
    show ?thesis
      by (subst if_not_P [OF False], subst if_not_P [OF e]) (rule keys_block_raises [OF n e])
  qed
qed

lemma cert_block_if:
  "cert_block L F rl cl create s =
     (case files s F of
        Some c \<Rightarrow> (Inr c, s\<lparr>stdout := stdout s @ [rl]\<rparr>)
      | None \<Rightarrow>
         if open_error L F = FileNotFoundError
         then (case create (world s) of
            (Inl e, w') \<Rightarrow> (Inl e, s\<lparr>world := w', stdout := stdout s @ [cl]\<rparr>)
          | (Inr c, w') \<Rightarrow>
              (Inr c, s\<lparr>world := w', files := (files s)(F \<mapsto> c),
                         stdout := stdout s @ [cl]\<rparr>))
         else (Inl (open_error L F), s))"
  by (cases "files s F")
    (simp_all add: cert_block_present cert_block_absent cert_block_raises)

subsection \<open>A second run\<close>

text \<open>
  C2. When all twelve files of the eight slots exist, \<open>main\<close> returns without raising and
  leaves the store as it found it: the files are the same, the world (clock and random
  source) is untouched, so no key and no certificate was created, and the eight lines it
  printed all say \<open>read\<close>. This holds for any content of the files.
\<close>

theorem second_run_writes_nothing:
  assumes "files s ''root_ca_priv_key.pem'' = Some k1"
    and "files s ''root_ca_pub_key.pem'' = Some u1"
    and "files s ''root_cert.pem'' = Some c1"
    and "files s ''signing_ca_priv_key.pem'' = Some k2"
    and "files s ''signing_ca_pub_key.pem'' = Some u2"
    and "files s ''signing_cert.pem'' = Some c2"
    and "files s ''server_priv_key.pem'' = Some k3"
    and "files s ''server_pub_key.pem'' = Some u3"
    and "files s ''server_cert.pem'' = Some c3"
    and "files s ''client_priv_key.pem'' = Some k4"
    and "files s ''client_pub_key.pem'' = Some u4"
    and "files s ''client_cert.pem'' = Some c4"
  shows "main L s = (Inr (), s\<lparr>stdout := stdout s @
     [''read root CA keys.'', ''read root certificate.'', ''read signing keys.'',
      ''read signing certificate.'', ''read server keys.'', ''read server certificate.'',
      ''read client keys.'', ''read client certificate.'']\<rparr>)"
  using assms
  by (simp add: main_def main_blocks bind_def keys_block_present cert_block_present return_def)

theorem second_run_writes_nothing_witness:
  "files provisioned_store ''root_ca_priv_key.pem'' = Some ''Sk''
 \<and> files provisioned_store ''root_ca_pub_key.pem'' = Some ''Pk''
 \<and> files provisioned_store ''root_cert.pem'' = Some ''Ck:Mothership Root''
 \<and> files provisioned_store ''signing_ca_priv_key.pem'' = Some ''Skkkk''
 \<and> files provisioned_store ''signing_ca_pub_key.pem'' = Some ''Pkkkk''
 \<and> files provisioned_store ''signing_cert.pem'' = Some ''Ckkkk:Mothership CA1''
 \<and> files provisioned_store ''server_priv_key.pem'' = Some ''Skkkkkkk''
 \<and> files provisioned_store ''server_pub_key.pem'' = Some ''Pkkkkkkk''
 \<and> files provisioned_store ''server_cert.pem'' = Some ''Ckkkkkkk:Mothership Server''
 \<and> files provisioned_store ''client_priv_key.pem'' = Some ''Skkkkkkkkkk''
 \<and> files provisioned_store ''client_pub_key.pem'' = Some ''Pkkkkkkkkkk''
 \<and> files provisioned_store ''client_cert.pem'' = Some ''Ckkkkkkkkkk:Random client''
 \<and> main sample_backend provisioned_store =
     (Inr (), provisioned_store\<lparr>stdout := stdout provisioned_store @
       [''read root CA keys.'', ''read root certificate.'', ''read signing keys.'',
        ''read signing certificate.'', ''read server keys.'', ''read server certificate.'',
        ''read client keys.'', ''read client certificate.'']\<rparr>)"
proof -
  have f: "files provisioned_store ''root_ca_priv_key.pem'' = Some ''Sk''"
    "files provisioned_store ''root_ca_pub_key.pem'' = Some ''Pk''"
    "files provisioned_store ''root_cert.pem'' = Some ''Ck:Mothership Root''"
    "files provisioned_store ''signing_ca_priv_key.pem'' = Some ''Skkkk''"
    "files provisioned_store ''signing_ca_pub_key.pem'' = Some ''Pkkkk''"
    "files provisioned_store ''signing_cert.pem'' = Some ''Ckkkk:Mothership CA1''"
    "files provisioned_store ''server_priv_key.pem'' = Some ''Skkkkkkk''"
    "files provisioned_store ''server_pub_key.pem'' = Some ''Pkkkkkkk''"
    "files provisioned_store ''server_cert.pem'' = Some ''Ckkkkkkk:Mothership Server''"
    "files provisioned_store ''client_priv_key.pem'' = Some ''Skkkkkkkkkk''"
    "files provisioned_store ''client_pub_key.pem'' = Some ''Pkkkkkkkkkk''"
    "files provisioned_store ''client_cert.pem'' = Some ''Ckkkkkkkkkk:Random client''"
    by (simp_all add: provisioned_store_def)
  from f second_run_writes_nothing [OF f, of sample_backend] show ?thesis
    by (intro conjI)
qed

subsection \<open>Present and absent slots\<close>






subsection \<open>Reasoning about runs of main\<close>

text \<open>A block writes no file but its own.\<close>

lemma keys_block_frame:
  "f \<noteq> P \<Longrightarrow> f \<noteq> U \<Longrightarrow> files (snd (keys_block L P U rl cl s)) f = files s f"
  by (simp add: keys_block_if split: prod.splits sum.splits)

lemma cert_block_frame:
  "f \<noteq> F \<Longrightarrow> files (snd (cert_block L F rl cl create s)) f = files s f"
  by (simp add: cert_block_if split: option.splits prod.splits sum.splits)

text \<open>
  The file of a certificate block, after the block: what it was, or what the creating
  function returned.
\<close>

lemma cert_block_own:
  "files (snd (cert_block L F rl cl create s)) F = Some bs \<Longrightarrow>
   files s F = Some bs \<or> (files s F = None \<and> (\<exists>w w'. create w = (Inr bs, w')))"
  by (auto simp: cert_block_if split: option.splits prod.splits sum.splits if_splits)

lemma hoare_bind:
  assumes "hoare P m R"
    and "\<And>e s. R (Inl e) s \<Longrightarrow> Q (Inl e) s"
    and "\<And>a. hoare (R (Inr a)) (f a) Q"
  shows "hoare P (bind m f) Q"
proof (unfold hoare_def, intro allI impI)
  fix s assume "P s"
  with assms(1) have r: "R (fst (m s)) (snd (m s))" by (simp add: hoare_def)
  show "Q (fst (bind m f s)) (snd (bind m f s))"
  proof (cases "fst (m s)")
    case (Inl e)
    then have "bind m f s = (Inl e, snd (m s))"
      by (cases "m s") (simp add: bind_def)
    with r Inl assms(2) show ?thesis by simp
  next
    case (Inr a)
    then have "bind m f s = f a (snd (m s))"
      by (cases "m s") (simp add: bind_def)
    with r Inr assms(3) [of a] show ?thesis by (simp add: hoare_def)
  qed
qed

lemma hoare_return: "(\<And>s. P s \<Longrightarrow> Q (Inr a) s) \<Longrightarrow> hoare P (return a) Q"
  by (simp add: hoare_def return_def)

lemma hoare_case_prod:
  "(\<And>a b. hoare P (f a b) Q) \<Longrightarrow> hoare P (case x of (a, b) \<Rightarrow> f a b) Q"
  by (cases x) simp

text \<open>An invariant of the eight blocks is an invariant of \<open>main\<close>.\<close>

lemma main_invariant:
  assumes "hoare I (main_root_keys L) (\<lambda>r. I)"
    and "\<And>k. hoare I (main_root_cert L k) (\<lambda>r. I)"
    and "hoare I (main_signing_keys L) (\<lambda>r. I)"
    and "\<And>c k u. hoare I (main_signing_cert L c k u) (\<lambda>r. I)"
    and "hoare I (main_server_keys L) (\<lambda>r. I)"
    and "\<And>c k u. hoare I (main_server_cert L c k u) (\<lambda>r. I)"
    and "hoare I (main_client_keys L) (\<lambda>r. I)"
    and "\<And>k. hoare I (main_client_cert L k) (\<lambda>r. I)"
  shows "hoare I (main L) (\<lambda>r. I)"
  unfolding main_def
  by (intro hoare_bind [where R = "\<lambda>r. I"] hoare_case_prod hoare_return assms)

text \<open>
  A property of what a certificate block creates holds of its file after \<open>main\<close>, when the
  file did not exist before.
\<close>

lemma keys_block_keeps:
  assumes "F \<noteq> P" "F \<noteq> U"
  shows "hoare (\<lambda>s. \<forall>bs. files s F = Some bs \<longrightarrow> G bs) (keys_block L P U rl cl)
           (\<lambda>r s. \<forall>bs. files s F = Some bs \<longrightarrow> G bs)"
  using assms by (simp add: hoare_def keys_block_frame)

lemma cert_block_keeps:
  assumes "F \<noteq> F'"
  shows "hoare (\<lambda>s. \<forall>bs. files s F = Some bs \<longrightarrow> G bs) (cert_block L F' rl cl create)
           (\<lambda>r s. \<forall>bs. files s F = Some bs \<longrightarrow> G bs)"
  using assms by (simp add: hoare_def cert_block_frame)

lemma cert_block_makes:
  assumes "\<And>w bs w'. create w = (Inr bs, w') \<Longrightarrow> G bs"
  shows "hoare (\<lambda>s. \<forall>bs. files s F = Some bs \<longrightarrow> G bs) (cert_block L F rl cl create)
           (\<lambda>r s. \<forall>bs. files s F = Some bs \<longrightarrow> G bs)"
  unfolding hoare_def using assms by (blast dest: cert_block_own)

text \<open>
  For each certificate file: a property of everything its creating function can return
  holds of the file after \<open>main\<close>, unless the file was there before.
\<close>

lemma main_makes_root_cert:
  assumes "\<And>k w bs w'. create_root_cert L k 365 w = (Inr bs, w') \<Longrightarrow> G bs"
  shows "hoare (\<lambda>s. \<forall>bs. files s ''root_cert.pem'' = Some bs \<longrightarrow> G bs) (main L)
           (\<lambda>r s. \<forall>bs. files s ''root_cert.pem'' = Some bs \<longrightarrow> G bs)"
  by (rule main_invariant; unfold main_blocks;
      (rule cert_block_makes, erule assms | rule keys_block_keeps cert_block_keeps; simp))



lemma main_makes_client_cert:
  assumes "\<And>k w bs w'. create_selfsigned_client_cert L k 14 w = (Inr bs, w') \<Longrightarrow> G bs"
  shows "hoare (\<lambda>s. \<forall>bs. files s ''client_cert.pem'' = Some bs \<longrightarrow> G bs) (main L)
           (\<lambda>r s. \<forall>bs. files s ''client_cert.pem'' = Some bs \<longrightarrow> G bs)"
  by (rule main_invariant; unfold main_blocks;
      (rule cert_block_makes, erule assms | rule keys_block_keeps cert_block_keeps; simp))

lemma hoare_absent_file:
  assumes "hoare (\<lambda>s. \<forall>bs. files s F = Some bs \<longrightarrow> G bs) m
             (\<lambda>r s. \<forall>bs. files s F = Some bs \<longrightarrow> G bs)"
    and "files s F = None" and "files (snd (m s)) F = Some bs"
  shows "G bs"
proof -
  from assms(1)
  have "(\<forall>bs. files s F = Some bs \<longrightarrow> G bs)
          \<longrightarrow> (\<forall>bs. files (snd (m s)) F = Some bs \<longrightarrow> G bs)"
    unfolding hoare_def by (rule spec)
  with assms(2, 3) show ?thesis by simp
qed

text \<open>The first run on the sample backend.\<close>

lemma sample_first_run:
  "main sample_backend empty_store =
     (Inr (), provisioned_store\<lparr>stdout :=
        [''Creating new root keys.'', ''Creating new root certificate.'',
         ''Creating new signing CA keys.'', ''Creating new signing certificate.'',
         ''Creating new server keys.'', ''Creating new server certificate.'',
         ''Creating new client keys.'', ''Creating new client certificate.'']\<rparr>)"
  by (simp add: main_def main_blocks keys_block_if cert_block_if empty_store_def
      provisioned_store_def sample_simps)

subsection \<open>Validity\<close>



subsection \<open>A signing certificate that does not parse\<close>










subsection \<open>The stored public keys of the root and the client\<close>

lemma rel_bind:
  assumes "rel_prog S V m n"
    and "\<And>a a'. V a a' \<Longrightarrow> rel_prog S W (f a) (g a')"
  shows "rel_prog S W (bind m f) (bind n g)"
proof (unfold rel_prog_def, intro allI impI)
  fix s t assume "S s t"
  with assms(1) have r: "(case (fst (m s), fst (n t)) of
           (Inl e, Inl e') \<Rightarrow> e = e'
         | (Inr a, Inr a') \<Rightarrow> V a a'
         | _ \<Rightarrow> False)" and st: "S (snd (m s)) (snd (n t))"
    by (simp_all add: rel_prog_def)
  show "(case (fst (bind m f s), fst (bind n g t)) of
           (Inl e, Inl e') \<Rightarrow> e = e'
         | (Inr a, Inr a') \<Rightarrow> W a a'
         | _ \<Rightarrow> False)
        \<and> S (snd (bind m f s)) (snd (bind n g t))"
  proof (cases "fst (m s)")
    case (Inl e)
    with r have "fst (n t) = Inl e" by (simp split: sum.splits)
    with Inl have "bind m f s = (Inl e, snd (m s))" "bind n g t = (Inl e, snd (n t))"
      by (cases "m s", simp add: bind_def, cases "n t", simp add: bind_def)
    with st show ?thesis by simp
  next
    case (Inr a)
    with r obtain a' where a': "fst (n t) = Inr a'" and v: "V a a'"
      by (auto split: sum.splits)
    from Inr a' have "bind m f s = f a (snd (m s))" "bind n g t = g a' (snd (n t))"
      by (cases "m s", simp add: bind_def, cases "n t", simp add: bind_def)
    with assms(2) [OF v] st show ?thesis by (simp add: rel_prog_def)
  qed
qed

lemma rel_return: "V a a' \<Longrightarrow> rel_prog S V (return a) (return a')"
  by (simp add: rel_prog_def return_def)

text \<open>
  A block that reads its private key (or its certificate) outside \<open>X\<close> does the same in two
  states that are the same except in \<open>X\<close>; of a key pair whose public key is in \<open>X\<close>, only
  the private keys returned need be the same.
\<close>

lemma keys_block_rel_private:
  assumes "P \<notin> X"
  shows "rel_prog (same_except X) (\<lambda>a a'. fst a = fst a')
           (keys_block L P U rl cl) (keys_block L P U rl cl)"
proof (unfold rel_prog_def, intro allI impI)
  fix s t :: "'a sys" assume st: "same_except X s t"
  then have w: "world s = world t" and o: "stdout s = stdout t"
    and n: "\<And>f. (files s f = None) = (files t f = None)"
    and x: "\<And>f. f \<notin> X \<Longrightarrow> files s f = files t f"
    by (simp_all add: same_except_def)
  let ?f = "if files s P = None then P else U"
  show "(case (fst (keys_block L P U rl cl s), fst (keys_block L P U rl cl t)) of
           (Inl e, Inl e') \<Rightarrow> e = e'
         | (Inr a, Inr a') \<Rightarrow> fst a = fst a'
         | _ \<Rightarrow> False)
        \<and> same_except X (snd (keys_block L P U rl cl s)) (snd (keys_block L P U rl cl t))"
  proof (cases "files s P = None \<or> files s U = None")
    case True
    then have ns: "(files s P = None \<and> open_error L P = open_error L ?f)
       \<or> (files s P \<noteq> None \<and> files s U = None \<and> open_error L U = open_error L ?f)"
      by auto
    with n [of P] n [of U]
    have nt: "(files t P = None \<and> open_error L P = open_error L ?f)
       \<or> (files t P \<noteq> None \<and> files t U = None \<and> open_error L U = open_error L ?f)"
      by auto
    show ?thesis
    proof (cases "open_error L ?f = FileNotFoundError")
      case True
      with ns have "(files s P = None \<and> open_error L P = FileNotFoundError)
         \<or> (files s P \<noteq> None \<and> files s U = None \<and> open_error L U = FileNotFoundError)"
        by auto
      note ks = keys_block_absent [OF this, where rl = rl and cl = cl]
      from True nt have "(files t P = None \<and> open_error L P = FileNotFoundError)
         \<or> (files t P \<noteq> None \<and> files t U = None \<and> open_error L U = FileNotFoundError)"
        by auto
      note kt = keys_block_absent [OF this, where rl = rl and cl = cl]
      obtain r w' where c: "create_rsa_key_pair L (world t) = (r, w')"
        by (cases "create_rsa_key_pair L (world t)")
      show ?thesis
      proof (cases r)
        case (Inl e)
        with c ks kt w o n x show ?thesis by (simp add: same_except_def)
      next
        case (Inr pu)
        with c ks kt w o n x show ?thesis by (cases pu) (simp add: same_except_def)
      qed
    next
      case False
      from keys_block_raises [OF ns False, where rl = rl and cl = cl]
        keys_block_raises [OF nt False, where rl = rl and cl = cl] st
      show ?thesis by simp
    qed
  next
    case False
    then obtain p u where su: "files s P = Some p" "files s U = Some u" by auto
    with n [of U] x [OF assms] obtain u' where tu: "files t P = Some p" "files t U = Some u'"
      by (cases "files t U") auto
    from keys_block_present [OF su, of L rl cl] keys_block_present [OF tu, of L rl cl] w o n x
    show ?thesis by (simp add: same_except_def)
  qed
qed

lemma keys_block_rel:
  assumes "P \<notin> X" "U \<notin> X"
  shows "rel_prog (same_except X) (=) (keys_block L P U rl cl) (keys_block L P U rl cl)"
proof (unfold rel_prog_def, intro allI impI)
  fix s t :: "'a sys" assume st: "same_except X s t"
  then have w: "world s = world t" and o: "stdout s = stdout t"
    and n: "\<And>f. (files s f = None) = (files t f = None)"
    and x: "\<And>f. f \<notin> X \<Longrightarrow> files s f = files t f"
    by (simp_all add: same_except_def)
  let ?f = "if files s P = None then P else U"
  show "(case (fst (keys_block L P U rl cl s), fst (keys_block L P U rl cl t)) of
           (Inl e, Inl e') \<Rightarrow> e = e'
         | (Inr a, Inr a') \<Rightarrow> a = a'
         | _ \<Rightarrow> False)
        \<and> same_except X (snd (keys_block L P U rl cl s)) (snd (keys_block L P U rl cl t))"
  proof (cases "files s P = None \<or> files s U = None")
    case True
    then have ns: "(files s P = None \<and> open_error L P = open_error L ?f)
       \<or> (files s P \<noteq> None \<and> files s U = None \<and> open_error L U = open_error L ?f)"
      by auto
    with n [of P] n [of U]
    have nt: "(files t P = None \<and> open_error L P = open_error L ?f)
       \<or> (files t P \<noteq> None \<and> files t U = None \<and> open_error L U = open_error L ?f)"
      by auto
    show ?thesis
    proof (cases "open_error L ?f = FileNotFoundError")
      case True
      with ns have "(files s P = None \<and> open_error L P = FileNotFoundError)
         \<or> (files s P \<noteq> None \<and> files s U = None \<and> open_error L U = FileNotFoundError)"
        by auto
      note ks = keys_block_absent [OF this, where rl = rl and cl = cl]
      from True nt have "(files t P = None \<and> open_error L P = FileNotFoundError)
         \<or> (files t P \<noteq> None \<and> files t U = None \<and> open_error L U = FileNotFoundError)"
        by auto
      note kt = keys_block_absent [OF this, where rl = rl and cl = cl]
      obtain r w' where c: "create_rsa_key_pair L (world t) = (r, w')"
        by (cases "create_rsa_key_pair L (world t)")
      show ?thesis
      proof (cases r)
        case (Inl e)
        with c ks kt w o n x show ?thesis by (simp add: same_except_def)
      next
        case (Inr pu)
        with c ks kt w o n x show ?thesis by (cases pu) (simp add: same_except_def)
      qed
    next
      case False
      from keys_block_raises [OF ns False, where rl = rl and cl = cl]
        keys_block_raises [OF nt False, where rl = rl and cl = cl] st
      show ?thesis by simp
    qed
  next
    case False
    then obtain p u where su: "files s P = Some p" "files s U = Some u" by auto
    with x [OF assms(1)] x [OF assms(2)] have tu: "files t P = Some p" "files t U = Some u"
      by simp_all
    from keys_block_present [OF su, of L rl cl] keys_block_present [OF tu, of L rl cl] w o n x
    show ?thesis by (simp add: same_except_def)
  qed
qed

lemma cert_block_rel:
  assumes "F \<notin> X"
  shows "rel_prog (same_except X) (=)
           (cert_block L F rl cl create) (cert_block L F rl cl create)"
proof (unfold rel_prog_def, intro allI impI)
  fix s t :: "'a sys" assume st: "same_except X s t"
  then have w: "world s = world t" and o: "stdout s = stdout t"
    and n: "\<And>f. (files s f = None) = (files t f = None)"
    and x: "\<And>f. f \<notin> X \<Longrightarrow> files s f = files t f"
    by (simp_all add: same_except_def)
  show "(case (fst (cert_block L F rl cl create s), fst (cert_block L F rl cl create t)) of
           (Inl e, Inl e') \<Rightarrow> e = e'
         | (Inr a, Inr a') \<Rightarrow> a = a'
         | _ \<Rightarrow> False)
        \<and> same_except X (snd (cert_block L F rl cl create s))
            (snd (cert_block L F rl cl create t))"
  proof (cases "files s F")
    case None
    with x [OF assms] have nt: "files t F = None" by simp
    show ?thesis
    proof (cases "open_error L F = FileNotFoundError")
      case True
      note ks = cert_block_absent [OF None True, where rl = rl and cl = cl and create = create]
        and kt = cert_block_absent [OF nt True, where rl = rl and cl = cl and create = create]
      obtain r w' where c: "create (world t) = (r, w')"
        by (cases "create (world t)")
      from c ks kt w o n x show ?thesis
        by (cases r) (simp_all add: same_except_def)
    next
      case False
      from cert_block_raises [OF None False, where rl = rl and cl = cl and create = create]
        cert_block_raises [OF nt False, where rl = rl and cl = cl and create = create] st
      show ?thesis by simp
    qed
  next
    case (Some c)
    with x [OF assms] have "files t F = Some c" by simp
    from cert_block_present [OF Some, where L = L and rl = rl and cl = cl and create = create]
      cert_block_present [OF this, where L = L and rl = rl and cl = cl and create = create]
      w o n x
    show ?thesis by (simp add: same_except_def)
  qed
qed

lemma rel_prog_same_result:
  assumes "rel_prog S (=) m n" and "S s t"
  shows "fst (m s) = fst (n t) \<and> S (snd (m s)) (snd (n t))"
proof -
  from assms have r: "(case (fst (m s), fst (n t)) of
           (Inl e, Inl e') \<Rightarrow> e = e'
         | (Inr a, Inr a') \<Rightarrow> a = a'
         | _ \<Rightarrow> False)" and st: "S (snd (m s)) (snd (n t))"
    by (simp_all add: rel_prog_def)
  from r have "fst (m s) = fst (n t)"
    by (cases "fst (m s)"; cases "fst (n t)") simp_all
  with st show ?thesis by simp
qed

lemma main_rel:
  "rel_prog (same_except {''root_ca_pub_key.pem'', ''client_pub_key.pem''}) (=)
     (main L) (main L)"
  unfolding main_def main_blocks
  apply (rule rel_bind [OF keys_block_rel_private])
   apply simp
  apply (clarsimp simp only: fst_conv split_paired_all prod.case)
  apply (rule rel_bind [OF cert_block_rel])
   apply simp
  apply (clarsimp simp only:)
  apply (rule rel_bind [OF keys_block_rel])
    apply simp
   apply simp
  apply (clarsimp simp only: split_paired_all prod.case)
  apply (rule rel_bind [OF cert_block_rel])
   apply simp
  apply (clarsimp simp only:)
  apply (rule rel_bind [OF keys_block_rel])
    apply simp
   apply simp
  apply (clarsimp simp only: split_paired_all prod.case)
  apply (rule rel_bind [OF cert_block_rel])
   apply simp
  apply (clarsimp simp only:)
  apply (rule rel_bind [OF keys_block_rel_private])
   apply simp
  apply (clarsimp simp only: fst_conv split_paired_all prod.case)
  apply (rule rel_bind [OF cert_block_rel])
   apply simp
  apply (rule rel_return)
  apply simp
  done

lemma same_except_two_files:
  "files s a = Some x \<Longrightarrow> files s b = Some y \<Longrightarrow>
   same_except {a, b} s (s\<lparr>files := (files s)(a \<mapsto> x', b \<mapsto> y')\<rparr>)"
  by (auto simp: same_except_def)

text \<open>
  C9. \<open>create_root_cert\<close> and \<open>create_selfsigned_client_cert\<close> take the PEM private key and
  no public key: the key they put into the certificate is the public key of the private key
  that signs it. Nothing a run of \<open>main\<close> does depends on what the files
  \<^verbatim>\<open>root_ca_pub_key.pem\<close> and \<^verbatim>\<open>client_pub_key.pem\<close> hold: two stores that differ only in
  the content of these two files give the same result, the same output, the same world and
  the same content of every other file, certificates included.
\<close>

theorem stored_public_keys_unused:
  "(create_root_cert L pem days w = (Inr bs, w') \<longrightarrow>
      (\<exists>key b. load_pem_private_key L pem None = Inr key \<and> issued L key b bs
         \<and> b_public_key b = Some (public_key_of L key)))
 \<and> (create_selfsigned_client_cert L pem days w = (Inr bs, w') \<longrightarrow>
      (\<exists>key b. load_pem_private_key L pem None = Inr key \<and> issued L key b bs
         \<and> b_public_key b = Some (public_key_of L key)))
 \<and> (same_except {''root_ca_pub_key.pem'', ''client_pub_key.pem''} s t \<longrightarrow>
      fst (main L s) = fst (main L t)
      \<and> same_except {''root_ca_pub_key.pem'', ''client_pub_key.pem''}
          (snd (main L s)) (snd (main L t)))"
proof -
  have root: "\<exists>key b. load_pem_private_key L pem None = Inr key \<and> issued L key b bs
         \<and> b_public_key b = Some (public_key_of L key)"
    if "create_root_cert L pem days w = (Inr bs, w')"
    using create_root_cert_Inr [OF that]
    by (elim exE conjE) (intro exI conjI, assumption, assumption, simp)
  have client: "\<exists>key b. load_pem_private_key L pem None = Inr key \<and> issued L key b bs
         \<and> b_public_key b = Some (public_key_of L key)"
    if "create_selfsigned_client_cert L pem days w = (Inr bs, w')"
    using create_selfsigned_client_cert_Inr [OF that]
    by (elim exE conjE) (intro exI conjI, assumption, assumption, simp)
  have run: "fst (main L s) = fst (main L t)
      \<and> same_except {''root_ca_pub_key.pem'', ''client_pub_key.pem''}
          (snd (main L s)) (snd (main L t))"
    if "same_except {''root_ca_pub_key.pem'', ''client_pub_key.pem''} s t"
    by (rule rel_prog_same_result
        [where m = "main L" and n = "main L"
           and S = "same_except {''root_ca_pub_key.pem'', ''client_pub_key.pem''}"])
      (rule main_rel, rule that)
  show ?thesis
    apply (intro conjI)
      apply (rule impI, erule root)
     apply (rule impI, erule client)
    apply (rule impI, erule run)
    done
qed

theorem stored_public_keys_unused_witness:
  "create_root_cert sample_backend ''Sk'' 365 1 = (Inr ''Ck:Mothership Root'', 3)
 \<and> (\<exists>key b. load_pem_private_key sample_backend ''Sk'' None = Inr key
       \<and> issued sample_backend key b ''Ck:Mothership Root''
       \<and> b_public_key b = Some (public_key_of sample_backend key))
 \<and> create_selfsigned_client_cert sample_backend ''Skkkkkkkkkk'' 14 10
      = (Inr ''Ckkkkkkkkkk:Random client'', 12)
 \<and> (\<exists>key b. load_pem_private_key sample_backend ''Skkkkkkkkkk'' None = Inr key
       \<and> issued sample_backend key b ''Ckkkkkkkkkk:Random client''
       \<and> b_public_key b = Some (public_key_of sample_backend key))
 \<and> same_except {''root_ca_pub_key.pem'', ''client_pub_key.pem''}
      keys_only_store keys_only_store_other_public
 \<and> fst (main sample_backend keys_only_store)
      = fst (main sample_backend keys_only_store_other_public)
 \<and> same_except {''root_ca_pub_key.pem'', ''client_pub_key.pem''}
      (snd (main sample_backend keys_only_store))
      (snd (main sample_backend keys_only_store_other_public))"
proof -
  note t = stored_public_keys_unused [where L = sample_backend]
  from t [where pem = "''Sk''" and days = 365 and w = 1] sample_root
  have 1: "\<exists>key b. load_pem_private_key sample_backend ''Sk'' None = Inr key
       \<and> issued sample_backend key b ''Ck:Mothership Root''
       \<and> b_public_key b = Some (public_key_of sample_backend key)"
    by blast
  from t [where pem = "''Skkkkkkkkkk''" and days = 14 and w = 10] sample_client
  have 2: "\<exists>key b. load_pem_private_key sample_backend ''Skkkkkkkkkk'' None = Inr key
       \<and> issued sample_backend key b ''Ckkkkkkkkkk:Random client''
       \<and> b_public_key b = Some (public_key_of sample_backend key)"
    by blast
  have 3: "same_except {''root_ca_pub_key.pem'', ''client_pub_key.pem''}
      keys_only_store keys_only_store_other_public"
    unfolding keys_only_store_other_public_def
    by (rule same_except_two_files) (simp_all add: keys_only_store_def)
  note r = t [where s = keys_only_store and t = keys_only_store_other_public,
      THEN conjunct2, THEN conjunct2, THEN mp, OF 3]
  note 4 = r [THEN conjunct1] and 5 = r [THEN conjunct2]
  from 1 2 3 4 5 sample_root sample_client show ?thesis
    by (intro conjI)
qed

subsection \<open>The chain in the store\<close>

text \<open>
  A block returns the content its files have afterwards.
\<close>

lemma cert_block_result:
  "fst (cert_block L F rl cl create s) = Inr c \<Longrightarrow>
   files (snd (cert_block L F rl cl create s)) F = Some c"
  by (auto simp: cert_block_if split: option.splits prod.splits sum.splits if_splits)

lemma keys_block_result:
  "P \<noteq> U \<Longrightarrow> fst (keys_block L P U rl cl s) = Inr (p, u) \<Longrightarrow>
   files (snd (keys_block L P U rl cl s)) P = Some p"
  by (auto simp: keys_block_if split: prod.splits sum.splits if_splits)

text \<open>
  A relation \<open>G\<close> between the issuer certificate, the issuer's private key and what
  \<open>create_signing_cert\<close> makes of them holds, after \<open>main\<close>, between the files of the
  root certificate, of the root's private key and of the signing certificate, when the
  signing certificate was not there before. The same for the signing certificate, the
  signing CA's private key and the server certificate.
\<close>

lemma main_links_signing_cert:
  assumes G: "\<And>c k u w bs w'. create_signing_cert L c k u 14 w = (Inr bs, w') \<Longrightarrow> G c k bs"
  shows "hoare (\<lambda>t. files t ''signing_cert.pem'' = None) (main L)
     (\<lambda>r t. \<forall>bs. files t ''signing_cert.pem'' = Some bs \<longrightarrow>
            (\<exists>rc rk. files t ''root_cert.pem'' = Some rc
               \<and> files t ''root_ca_priv_key.pem'' = Some rk \<and> G rc rk bs))"
proof -
  define A where "A t \<longleftrightarrow> files t ''signing_cert.pem'' = None" for t :: "'a sys"
  define I where "I t \<longleftrightarrow> (\<forall>bs. files t ''signing_cert.pem'' = Some bs \<longrightarrow>
            (\<exists>rc rk. files t ''root_cert.pem'' = Some rc
               \<and> files t ''root_ca_priv_key.pem'' = Some rk \<and> G rc rk bs))" for t :: "'a sys"
  have AI: "A t \<Longrightarrow> I t" for t
    by (simp add: A_def I_def)
  have keys: "hoare I (keys_block L P U rl cl) (\<lambda>r. I)"
    if "P \<noteq> ''signing_cert.pem''" "U \<noteq> ''signing_cert.pem''"
      "P \<noteq> ''root_cert.pem''" "U \<noteq> ''root_cert.pem''"
      "P \<noteq> ''root_ca_priv_key.pem''" "U \<noteq> ''root_ca_priv_key.pem''" for P U rl cl
    using that by (simp add: hoare_def I_def keys_block_frame)
  have cert: "hoare I (cert_block L F rl cl create) (\<lambda>r. I)"
    if "F \<noteq> ''signing_cert.pem''" "F \<noteq> ''root_cert.pem''" "F \<noteq> ''root_ca_priv_key.pem''"
    for F rl cl create
    using that by (simp add: hoare_def I_def cert_block_frame)
  have root_keys: "hoare A (main_root_keys L)
      (\<lambda>r t. A t \<and> (\<forall>a. r = Inr a \<longrightarrow> files t ''root_ca_priv_key.pem'' = Some (fst a)))"
  proof (unfold hoare_def main_blocks, intro allI impI conjI)
    fix t a
    let ?m = "keys_block L ''root_ca_priv_key.pem'' ''root_ca_pub_key.pem''
                ''read root CA keys.'' ''Creating new root keys.''"
    assume "A t"
    then show "A (snd (?m t))" by (simp add: A_def keys_block_frame)
    assume "fst (?m t) = Inr a"
    then have "fst (?m t) = Inr (fst a, snd a)" by simp
    then show "files (snd (?m t)) ''root_ca_priv_key.pem'' = Some (fst a)"
      by (rule keys_block_result [rotated]) simp
  qed
  have root_cert: "hoare (\<lambda>t. A t \<and> files t ''root_ca_priv_key.pem'' = Some k)
      (main_root_cert L k)
      (\<lambda>r t. A t \<and> files t ''root_ca_priv_key.pem'' = Some k
         \<and> (\<forall>c. r = Inr c \<longrightarrow> files t ''root_cert.pem'' = Some c))" for k
    by (auto simp: hoare_def main_blocks A_def cert_block_frame dest: cert_block_result)
  have signing_keys: "hoare
      (\<lambda>t. A t \<and> files t ''root_ca_priv_key.pem'' = Some k \<and> files t ''root_cert.pem'' = Some c)
      (main_signing_keys L)
      (\<lambda>r t. A t \<and> files t ''root_ca_priv_key.pem'' = Some k
         \<and> files t ''root_cert.pem'' = Some c)" for k c
    by (auto simp: hoare_def main_blocks A_def keys_block_frame)
  have signing_cert: "hoare
      (\<lambda>t. A t \<and> files t ''root_ca_priv_key.pem'' = Some k \<and> files t ''root_cert.pem'' = Some c)
      (main_signing_cert L c k u) (\<lambda>r. I)" for c k u
  proof (unfold hoare_def main_blocks, intro allI impI)
    fix t
    assume "A t \<and> files t ''root_ca_priv_key.pem'' = Some k \<and> files t ''root_cert.pem'' = Some c"
    then have a: "files t ''signing_cert.pem'' = None"
      and rk: "files t ''root_ca_priv_key.pem'' = Some k"
      and rc: "files t ''root_cert.pem'' = Some c" by (simp_all add: A_def)
    let ?m = "cert_block L ''signing_cert.pem'' ''read signing certificate.''
                ''Creating new signing certificate.'' (create_signing_cert L c k u 14)"
    have f: "files (snd (?m t)) ''root_cert.pem'' = Some c"
      "files (snd (?m t)) ''root_ca_priv_key.pem'' = Some k"
      using rc rk by (simp_all add: cert_block_frame)
    show "I (snd (?m t))"
      unfolding I_def
    proof (intro allI impI)
      fix bs assume "files (snd (?m t)) ''signing_cert.pem'' = Some bs"
      from cert_block_own [OF this] a
      have "\<exists>w w'. create_signing_cert L c k u 14 w = (Inr bs, w')" by simp
      then have "G c k bs" by (auto dest: G)
      with f show "\<exists>rc rk. files (snd (?m t)) ''root_cert.pem'' = Some rc
               \<and> files (snd (?m t)) ''root_ca_priv_key.pem'' = Some rk \<and> G rc rk bs"
        by simp
    qed
  qed
  have rest: "hoare I
      (bind (main_server_keys L) (\<lambda>(server_priv_key, server_pub_key).
       bind (main_server_cert L signing_cert signing_ca_priv_key server_pub_key) (\<lambda>server_cert.
       bind (main_client_keys L) (\<lambda>(client_priv_key, client_pub_key).
       bind (main_client_cert L client_priv_key) (\<lambda>client_cert.
       return ()))))) (\<lambda>r. I)" for signing_cert signing_ca_priv_key
    apply (rule hoare_bind [where R = "\<lambda>r. I"])
      apply (unfold main_blocks, rule keys, simp_all)[1]
     apply assumption
    apply (rule hoare_case_prod)
    apply (rule hoare_bind [where R = "\<lambda>r. I"])
      apply (unfold main_blocks, rule cert, simp_all)[1]
     apply assumption
    apply (rule hoare_bind [where R = "\<lambda>r. I"])
      apply (unfold main_blocks, rule keys, simp_all)[1]
     apply assumption
    apply (rule hoare_case_prod)
    apply (rule hoare_bind [where R = "\<lambda>r. I"])
      apply (unfold main_blocks, rule cert, simp_all)[1]
     apply assumption
    apply (rule hoare_return)
    apply assumption
    done
  have from_signing_cert: "hoare
      (\<lambda>t. A t \<and> files t ''root_ca_priv_key.pem'' = Some k \<and> files t ''root_cert.pem'' = Some c)
      (bind (main_signing_cert L c k u) (\<lambda>signing_cert.
       bind (main_server_keys L) (\<lambda>(server_priv_key, server_pub_key).
       bind (main_server_cert L signing_cert signing_ca_priv_key server_pub_key) (\<lambda>server_cert.
       bind (main_client_keys L) (\<lambda>(client_priv_key, client_pub_key).
       bind (main_client_cert L client_priv_key) (\<lambda>client_cert.
       return ())))))) (\<lambda>r. I)" for c k u signing_ca_priv_key
    by (rule hoare_bind [OF signing_cert]) (assumption, rule rest)
  have from_signing_keys: "hoare
      (\<lambda>t. A t \<and> files t ''root_ca_priv_key.pem'' = Some k \<and> files t ''root_cert.pem'' = Some c)
      (bind (main_signing_keys L) (\<lambda>(signing_ca_priv_key, signing_ca_pub_key).
       bind (main_signing_cert L c k signing_ca_pub_key) (\<lambda>signing_cert.
       bind (main_server_keys L) (\<lambda>(server_priv_key, server_pub_key).
       bind (main_server_cert L signing_cert signing_ca_priv_key server_pub_key) (\<lambda>server_cert.
       bind (main_client_keys L) (\<lambda>(client_priv_key, client_pub_key).
       bind (main_client_cert L client_priv_key) (\<lambda>client_cert.
       return ()))))))) (\<lambda>r. I)" for c k
    by (rule hoare_bind [OF signing_keys])
      (simp add: AI, rule hoare_case_prod, rule from_signing_cert)
  have from_root_cert: "hoare (\<lambda>t. A t \<and> files t ''root_ca_priv_key.pem'' = Some k)
      (bind (main_root_cert L k) (\<lambda>root_cert.
       bind (main_signing_keys L) (\<lambda>(signing_ca_priv_key, signing_ca_pub_key).
       bind (main_signing_cert L root_cert k signing_ca_pub_key) (\<lambda>signing_cert.
       bind (main_server_keys L) (\<lambda>(server_priv_key, server_pub_key).
       bind (main_server_cert L signing_cert signing_ca_priv_key server_pub_key) (\<lambda>server_cert.
       bind (main_client_keys L) (\<lambda>(client_priv_key, client_pub_key).
       bind (main_client_cert L client_priv_key) (\<lambda>client_cert.
       return ())))))))) (\<lambda>r. I)" for k
    by (rule hoare_bind [OF root_cert]) (simp add: AI, simp add: from_signing_keys)
  have "hoare A (main L) (\<lambda>r. I)"
    unfolding main_def
    by (rule hoare_bind [OF root_keys])
      (simp add: AI, simp add: split_paired_all from_root_cert)
  then show ?thesis by (simp add: A_def [abs_def] I_def [abs_def])
qed

lemma main_links_server_cert:
  assumes G: "\<And>c k u w bs w'. create_server_cert L c k u 14 w = (Inr bs, w') \<Longrightarrow> G c k bs"
  shows "hoare (\<lambda>t. files t ''server_cert.pem'' = None) (main L)
     (\<lambda>r t. \<forall>bs. files t ''server_cert.pem'' = Some bs \<longrightarrow>
            (\<exists>sc sk. files t ''signing_cert.pem'' = Some sc
               \<and> files t ''signing_ca_priv_key.pem'' = Some sk \<and> G sc sk bs))"
proof -
  define A where "A t \<longleftrightarrow> files t ''server_cert.pem'' = None" for t :: "'a sys"
  define I where "I t \<longleftrightarrow> (\<forall>bs. files t ''server_cert.pem'' = Some bs \<longrightarrow>
            (\<exists>sc sk. files t ''signing_cert.pem'' = Some sc
               \<and> files t ''signing_ca_priv_key.pem'' = Some sk \<and> G sc sk bs))" for t :: "'a sys"
  have AI: "A t \<Longrightarrow> I t" for t
    by (simp add: A_def I_def)
  have keys: "hoare I (keys_block L P U rl cl) (\<lambda>r. I)"
    if "P \<noteq> ''server_cert.pem''" "U \<noteq> ''server_cert.pem''"
      "P \<noteq> ''signing_cert.pem''" "U \<noteq> ''signing_cert.pem''"
      "P \<noteq> ''signing_ca_priv_key.pem''" "U \<noteq> ''signing_ca_priv_key.pem''" for P U rl cl
    using that by (simp add: hoare_def I_def keys_block_frame)
  have cert: "hoare I (cert_block L F rl cl create) (\<lambda>r. I)"
    if "F \<noteq> ''server_cert.pem''" "F \<noteq> ''signing_cert.pem''"
      "F \<noteq> ''signing_ca_priv_key.pem''" for F rl cl create
    using that by (simp add: hoare_def I_def cert_block_frame)
  have root_keys: "hoare A (main_root_keys L) (\<lambda>r. A)"
    by (simp add: hoare_def main_blocks A_def keys_block_frame)
  have root_cert: "hoare A (main_root_cert L k) (\<lambda>r. A)" for k
    by (simp add: hoare_def main_blocks A_def cert_block_frame)
  have signing_keys: "hoare A (main_signing_keys L)
      (\<lambda>r t. A t \<and> (\<forall>a. r = Inr a \<longrightarrow> files t ''signing_ca_priv_key.pem'' = Some (fst a)))"
  proof (unfold hoare_def main_blocks, intro allI impI conjI)
    fix t a
    let ?m = "keys_block L ''signing_ca_priv_key.pem'' ''signing_ca_pub_key.pem''
                ''read signing keys.'' ''Creating new signing CA keys.''"
    assume "A t"
    then show "A (snd (?m t))" by (simp add: A_def keys_block_frame)
    assume "fst (?m t) = Inr a"
    then have "fst (?m t) = Inr (fst a, snd a)" by simp
    then show "files (snd (?m t)) ''signing_ca_priv_key.pem'' = Some (fst a)"
      by (rule keys_block_result [rotated]) simp
  qed
  have signing_cert: "hoare (\<lambda>t. A t \<and> files t ''signing_ca_priv_key.pem'' = Some k)
      (main_signing_cert L rc rk u)
      (\<lambda>r t. A t \<and> files t ''signing_ca_priv_key.pem'' = Some k
         \<and> (\<forall>c. r = Inr c \<longrightarrow> files t ''signing_cert.pem'' = Some c))" for k rc rk u
    by (auto simp: hoare_def main_blocks A_def cert_block_frame dest: cert_block_result)
  have server_keys: "hoare
      (\<lambda>t. A t \<and> files t ''signing_ca_priv_key.pem'' = Some k
         \<and> files t ''signing_cert.pem'' = Some c)
      (main_server_keys L)
      (\<lambda>r t. A t \<and> files t ''signing_ca_priv_key.pem'' = Some k
         \<and> files t ''signing_cert.pem'' = Some c)" for k c
    by (auto simp: hoare_def main_blocks A_def keys_block_frame)
  have server_cert: "hoare
      (\<lambda>t. A t \<and> files t ''signing_ca_priv_key.pem'' = Some k
         \<and> files t ''signing_cert.pem'' = Some c)
      (main_server_cert L c k u) (\<lambda>r. I)" for c k u
  proof (unfold hoare_def main_blocks, intro allI impI)
    fix t
    assume "A t \<and> files t ''signing_ca_priv_key.pem'' = Some k
              \<and> files t ''signing_cert.pem'' = Some c"
    then have a: "files t ''server_cert.pem'' = None"
      and sk: "files t ''signing_ca_priv_key.pem'' = Some k"
      and sc: "files t ''signing_cert.pem'' = Some c" by (simp_all add: A_def)
    let ?m = "cert_block L ''server_cert.pem'' ''read server certificate.''
                ''Creating new server certificate.'' (create_server_cert L c k u 14)"
    have f: "files (snd (?m t)) ''signing_cert.pem'' = Some c"
      "files (snd (?m t)) ''signing_ca_priv_key.pem'' = Some k"
      using sc sk by (simp_all add: cert_block_frame)
    show "I (snd (?m t))"
      unfolding I_def
    proof (intro allI impI)
      fix bs assume "files (snd (?m t)) ''server_cert.pem'' = Some bs"
      from cert_block_own [OF this] a
      have "\<exists>w w'. create_server_cert L c k u 14 w = (Inr bs, w')" by simp
      then have "G c k bs" by (auto dest: G)
      with f show "\<exists>sc sk. files (snd (?m t)) ''signing_cert.pem'' = Some sc
               \<and> files (snd (?m t)) ''signing_ca_priv_key.pem'' = Some sk \<and> G sc sk bs"
        by simp
    qed
  qed
  have rest: "hoare I
      (bind (main_client_keys L) (\<lambda>(client_priv_key, client_pub_key).
       bind (main_client_cert L client_priv_key) (\<lambda>client_cert.
       return ()))) (\<lambda>r. I)"
    apply (rule hoare_bind [where R = "\<lambda>r. I"])
      apply (unfold main_blocks, rule keys, simp_all)[1]
     apply assumption
    apply (rule hoare_case_prod)
    apply (rule hoare_bind [where R = "\<lambda>r. I"])
      apply (unfold main_blocks, rule cert, simp_all)[1]
     apply assumption
    apply (rule hoare_return)
    apply assumption
    done
  have from_server_cert: "hoare
      (\<lambda>t. A t \<and> files t ''signing_ca_priv_key.pem'' = Some k
         \<and> files t ''signing_cert.pem'' = Some c)
      (bind (main_server_cert L c k u) (\<lambda>server_cert.
       bind (main_client_keys L) (\<lambda>(client_priv_key, client_pub_key).
       bind (main_client_cert L client_priv_key) (\<lambda>client_cert.
       return ())))) (\<lambda>r. I)" for c k u
    by (rule hoare_bind [OF server_cert]) (assumption, rule rest)
  have from_server_keys: "hoare
      (\<lambda>t. A t \<and> files t ''signing_ca_priv_key.pem'' = Some k
         \<and> files t ''signing_cert.pem'' = Some c)
      (bind (main_server_keys L) (\<lambda>(server_priv_key, server_pub_key).
       bind (main_server_cert L c k server_pub_key) (\<lambda>server_cert.
       bind (main_client_keys L) (\<lambda>(client_priv_key, client_pub_key).
       bind (main_client_cert L client_priv_key) (\<lambda>client_cert.
       return ()))))) (\<lambda>r. I)" for c k
    by (rule hoare_bind [OF server_keys])
      (simp add: AI, rule hoare_case_prod, rule from_server_cert)
  have from_signing_cert: "hoare (\<lambda>t. A t \<and> files t ''signing_ca_priv_key.pem'' = Some k)
      (bind (main_signing_cert L rc rk u) (\<lambda>signing_cert.
       bind (main_server_keys L) (\<lambda>(server_priv_key, server_pub_key).
       bind (main_server_cert L signing_cert k server_pub_key) (\<lambda>server_cert.
       bind (main_client_keys L) (\<lambda>(client_priv_key, client_pub_key).
       bind (main_client_cert L client_priv_key) (\<lambda>client_cert.
       return ())))))) (\<lambda>r. I)" for k rc rk u
    by (rule hoare_bind [OF signing_cert]) (simp add: AI, simp add: from_server_keys)
  have from_signing_keys: "hoare A
      (bind (main_signing_keys L) (\<lambda>(signing_ca_priv_key, signing_ca_pub_key).
       bind (main_signing_cert L rc rk signing_ca_pub_key) (\<lambda>signing_cert.
       bind (main_server_keys L) (\<lambda>(server_priv_key, server_pub_key).
       bind (main_server_cert L signing_cert signing_ca_priv_key server_pub_key) (\<lambda>server_cert.
       bind (main_client_keys L) (\<lambda>(client_priv_key, client_pub_key).
       bind (main_client_cert L client_priv_key) (\<lambda>client_cert.
       return ()))))))) (\<lambda>r. I)" for rc rk
    by (rule hoare_bind [OF signing_keys])
      (simp add: AI, simp add: split_paired_all from_signing_cert)
  have "hoare A (main L) (\<lambda>r. I)"
    unfolding main_def
    apply (rule hoare_bind [OF root_keys])
     apply (simp add: AI)
    apply (rule hoare_case_prod)
    apply (rule hoare_bind [OF root_cert])
     apply (simp add: AI)
    apply (rule from_signing_keys)
    done
  then show ?thesis by (simp add: A_def [abs_def] I_def [abs_def])
qed

subsection \<open>Names and key identifiers\<close>

text \<open>A run on the store that mixes two generations of the root.\<close>

lemma stale_run:
  "main sample_backend stale_root_store =
     (Inr (),
      stale_root_store\<lparr>world := 12,
        files := (files stale_root_store)
          (''signing_ca_priv_key.pem'' \<mapsto> ''Skkkk'',
           ''signing_ca_pub_key.pem'' \<mapsto> ''Pkkkk'',
           ''signing_cert.pem'' \<mapsto> ''Ckkkk:Mothership CA1'',
           ''server_priv_key.pem'' \<mapsto> ''Skkkkkkk'',
           ''server_pub_key.pem'' \<mapsto> ''Pkkkkkkk'',
           ''server_cert.pem'' \<mapsto> ''Ckkkkkkk:Mothership Server'',
           ''client_priv_key.pem'' \<mapsto> ''Skkkkkkkkkk'',
           ''client_pub_key.pem'' \<mapsto> ''Pkkkkkkkkkk'',
           ''client_cert.pem'' \<mapsto> ''Ckkkkkkkkkk:Random client''),
        stdout := [''read root CA keys.'', ''read root certificate.'',
          ''Creating new signing CA keys.'', ''Creating new signing certificate.'',
          ''Creating new server keys.'', ''Creating new server certificate.'',
          ''Creating new client keys.'', ''Creating new client certificate.'']\<rparr>)"
  by (simp add: main_def main_blocks keys_block_if cert_block_if stale_root_store_def
      sample_simps)

text \<open>
  C1, as the script has it. \<open>create_signing_cert\<close> and \<open>create_server_cert\<close> take the
  issuer's certificate and the issuer's private key as two parameters that nothing
  relates, and \<open>main\<close> passes what the files of the certificate and of the private key
  hold. On the sample backend, from a store whose root certificate is that of the key 1 and
  whose root key pair is the key 3, a run creates the signing certificate. It is signed
  with the key 3, and its authority key identifier is that of the key 1, the key of the
  root certificate: not the identifier of the public key of the key that signed it.
\<close>

theorem stale_root_certificate_counterexample:
  "files stale_root_store ''root_cert.pem'' = Some ''Ck:Mothership Root''
 \<and> files stale_root_store ''root_ca_priv_key.pem'' = Some ''Skkk''
 \<and> files stale_root_store ''signing_cert.pem'' = None
 \<and> fst (main sample_backend stale_root_store) = Inr ()
 \<and> files (snd (main sample_backend stale_root_store)) ''root_cert.pem''
      = Some ''Ck:Mothership Root''
 \<and> files (snd (main sample_backend stale_root_store)) ''root_ca_priv_key.pem'' = Some ''Skkk''
 \<and> files (snd (main sample_backend stale_root_store)) ''signing_ca_pub_key.pem''
      = Some ''Pkkkk''
 \<and> files (snd (main sample_backend stale_root_store)) ''signing_cert.pem''
      = Some ''Ckkkk:Mothership CA1''
 \<and> create_signing_cert sample_backend ''Ck:Mothership Root'' ''Skkk'' ''Pkkkk'' 14 4
      = (Inr ''Ckkkk:Mothership CA1'', 6)
 \<and> load_pem_x509_certificate sample_backend ''Ck:Mothership Root''
      = Inr (''Mothership Root'', 1)
 \<and> load_pem_private_key sample_backend ''Skkk'' None = Inr 3
 \<and> issued sample_backend 3 stale_builder ''Ckkkk:Mothership CA1''
 \<and> extension_values AUTHORITY_KEY_IDENTIFIER stale_builder =
      [AuthorityKeyIdentifier
         (Some (key_identifier sample_backend
            (cert_public_key sample_backend (''Mothership Root'', 1)))) None None]
 \<and> key_identifier sample_backend (cert_public_key sample_backend (''Mothership Root'', 1))
      \<noteq> key_identifier sample_backend (public_key_of sample_backend 3)"
proof -
  have s: "files stale_root_store ''root_cert.pem'' = Some ''Ck:Mothership Root''"
    "files stale_root_store ''root_ca_priv_key.pem'' = Some ''Skkk''"
    "files stale_root_store ''signing_cert.pem'' = None"
    by (simp_all add: stale_root_store_def)
  have r: "fst (main sample_backend stale_root_store) = Inr ()"
    "files (snd (main sample_backend stale_root_store)) ''root_cert.pem''
      = Some ''Ck:Mothership Root''"
    "files (snd (main sample_backend stale_root_store)) ''root_ca_priv_key.pem'' = Some ''Skkk''"
    "files (snd (main sample_backend stale_root_store)) ''signing_ca_pub_key.pem''
      = Some ''Pkkkk''"
    "files (snd (main sample_backend stale_root_store)) ''signing_cert.pem''
      = Some ''Ckkkk:Mothership CA1''"
    unfolding stale_run by (simp_all add: stale_root_store_def)
  have c: "create_signing_cert sample_backend ''Ck:Mothership Root'' ''Skkk'' ''Pkkkk'' 14 4
      = (Inr ''Ckkkk:Mothership CA1'', 6)"
    "load_pem_x509_certificate sample_backend ''Ck:Mothership Root''
      = Inr (''Mothership Root'', 1)"
    "load_pem_private_key sample_backend ''Skkk'' None = Inr 3"
    by (simp_all add: sample_simps)
  have b: "issued sample_backend 3 stale_builder ''Ckkkk:Mothership CA1''"
    "extension_values AUTHORITY_KEY_IDENTIFIER stale_builder =
      [AuthorityKeyIdentifier
         (Some (key_identifier sample_backend
            (cert_public_key sample_backend (''Mothership Root'', 1)))) None None]"
    "key_identifier sample_backend (cert_public_key sample_backend (''Mothership Root'', 1))
      \<noteq> key_identifier sample_backend (public_key_of sample_backend 3)"
    by (simp_all add: stale_builder_def issued_def extension_values_def sample_simps)
  from s r c b show ?thesis by (intro conjI)
qed

text \<open>
  C1, amended. In each of the four certificates the issuer name is the subject name of the
  issuer certificate handed to the function that builds it, and the certificate's own
  subject for the root and the client. The authority key identifier is the key identifier
  of the public key of that issuer certificate (of the certificate's own key for the root
  and the client), the subject key identifier is the key identifier of the certificate's
  own public key, so the two agree in the root and in the client certificate. The
  certificate is signed with the private key handed to the function; the intermediate and
  the server certificate are not checked against it, and their authority key identifier is
  that of the public key of the key that signs when the issuer certificate carries that
  public key. In a run of \<open>main\<close> a root or client certificate that the run has created
  names itself as issuer and identifies its own key as authority key; a signing (server)
  certificate that the run has created names as issuer, and identifies as authority key,
  the subject and the key of the certificate that the file of the root (signing)
  certificate holds after the run, and is signed with the key that the file of the root's
  (signing CA's) private key holds.
\<close>

theorem issuer_and_key_identifiers:
  "(create_root_cert L pem days w = (Inr bs, w') \<longrightarrow>
      (\<exists>key b. load_pem_private_key L pem None = Inr key \<and> issued L key b bs
         \<and> b_subject_name b = Some ROOT_DN \<and> b_issuer_name b = b_subject_name b
         \<and> b_public_key b = Some (public_key_of L key)
         \<and> extension_values AUTHORITY_KEY_IDENTIFIER b =
             [AuthorityKeyIdentifier (Some (key_identifier L (public_key_of L key))) None None]
         \<and> extension_values SUBJECT_KEY_IDENTIFIER b =
             [SubjectKeyIdentifier (key_identifier L (public_key_of L key))]))
 \<and> (create_signing_cert L pem_issuer_cert pem pem_public_key days w = (Inr bs, w') \<longrightarrow>
      (\<exists>issuer_cert key pub b.
           load_pem_x509_certificate L pem_issuer_cert = Inr issuer_cert
         \<and> load_pem_private_key L pem None = Inr key
         \<and> load_pem_public_key L pem_public_key = Inr pub \<and> issued L key b bs
         \<and> b_subject_name b = Some INTERMEDIATE_DN
         \<and> b_issuer_name b = Some (cert_subject L issuer_cert)
         \<and> b_public_key b = Some pub
         \<and> extension_values AUTHORITY_KEY_IDENTIFIER b =
             [AuthorityKeyIdentifier
                (Some (key_identifier L (cert_public_key L issuer_cert))) None None]
         \<and> extension_values SUBJECT_KEY_IDENTIFIER b =
             [SubjectKeyIdentifier (key_identifier L pub)]))
 \<and> (create_server_cert L pem_issuer_cert pem pem_public_key days w = (Inr bs, w') \<longrightarrow>
      (\<exists>issuer_cert key pub b.
           load_pem_x509_certificate L pem_issuer_cert = Inr issuer_cert
         \<and> load_pem_private_key L pem None = Inr key
         \<and> load_pem_public_key L pem_public_key = Inr pub \<and> issued L key b bs
         \<and> b_subject_name b = Some SERVER_DN
         \<and> b_issuer_name b = Some (cert_subject L issuer_cert)
         \<and> b_public_key b = Some pub
         \<and> extension_values AUTHORITY_KEY_IDENTIFIER b =
             [AuthorityKeyIdentifier
                (Some (key_identifier L (cert_public_key L issuer_cert))) None None]
         \<and> extension_values SUBJECT_KEY_IDENTIFIER b =
             [SubjectKeyIdentifier (key_identifier L pub)]))
 \<and> (create_selfsigned_client_cert L pem days w = (Inr bs, w') \<longrightarrow>
      (\<exists>key b. load_pem_private_key L pem None = Inr key \<and> issued L key b bs
         \<and> b_subject_name b = Some CLIENT_DN \<and> b_issuer_name b = b_subject_name b
         \<and> b_public_key b = Some (public_key_of L key)
         \<and> extension_values AUTHORITY_KEY_IDENTIFIER b =
             [AuthorityKeyIdentifier (Some (key_identifier L (public_key_of L key))) None None]
         \<and> extension_values SUBJECT_KEY_IDENTIFIER b =
             [SubjectKeyIdentifier (key_identifier L (public_key_of L key))]))
 \<and> (create_signing_cert L pem_issuer_cert pem pem_public_key days w = (Inr bs, w')
      \<and> load_pem_x509_certificate L pem_issuer_cert = Inr issuer_cert
      \<and> load_pem_private_key L pem None = Inr key
      \<and> cert_public_key L issuer_cert = public_key_of L key \<longrightarrow>
      (\<exists>b. issued L key b bs
         \<and> extension_values AUTHORITY_KEY_IDENTIFIER b =
             [AuthorityKeyIdentifier
                (Some (key_identifier L (public_key_of L key))) None None]))
 \<and> (create_server_cert L pem_issuer_cert pem pem_public_key days w = (Inr bs, w')
      \<and> load_pem_x509_certificate L pem_issuer_cert = Inr issuer_cert
      \<and> load_pem_private_key L pem None = Inr key
      \<and> cert_public_key L issuer_cert = public_key_of L key \<longrightarrow>
      (\<exists>b. issued L key b bs
         \<and> extension_values AUTHORITY_KEY_IDENTIFIER b =
             [AuthorityKeyIdentifier
                (Some (key_identifier L (public_key_of L key))) None None]))
 \<and> (files s ''root_cert.pem'' = None
      \<and> files (snd (main L s)) ''root_cert.pem'' = Some bs \<longrightarrow>
      (\<exists>key b. issued L key b bs
         \<and> b_subject_name b = Some ROOT_DN \<and> b_issuer_name b = b_subject_name b
         \<and> b_public_key b = Some (public_key_of L key)
         \<and> extension_values AUTHORITY_KEY_IDENTIFIER b =
             [AuthorityKeyIdentifier (Some (key_identifier L (public_key_of L key))) None None]
         \<and> extension_values SUBJECT_KEY_IDENTIFIER b =
             [SubjectKeyIdentifier (key_identifier L (public_key_of L key))]))
 \<and> (files s ''signing_cert.pem'' = None
      \<and> files (snd (main L s)) ''signing_cert.pem'' = Some bs \<longrightarrow>
      (\<exists>rc rk issuer_cert key b.
           files (snd (main L s)) ''root_cert.pem'' = Some rc
         \<and> files (snd (main L s)) ''root_ca_priv_key.pem'' = Some rk
         \<and> load_pem_x509_certificate L rc = Inr issuer_cert
         \<and> load_pem_private_key L rk None = Inr key \<and> issued L key b bs
         \<and> b_subject_name b = Some INTERMEDIATE_DN
         \<and> b_issuer_name b = Some (cert_subject L issuer_cert)
         \<and> extension_values AUTHORITY_KEY_IDENTIFIER b =
             [AuthorityKeyIdentifier
                (Some (key_identifier L (cert_public_key L issuer_cert))) None None]))
 \<and> (files s ''server_cert.pem'' = None
      \<and> files (snd (main L s)) ''server_cert.pem'' = Some bs \<longrightarrow>
      (\<exists>rc rk issuer_cert key b.
           files (snd (main L s)) ''signing_cert.pem'' = Some rc
         \<and> files (snd (main L s)) ''signing_ca_priv_key.pem'' = Some rk
         \<and> load_pem_x509_certificate L rc = Inr issuer_cert
         \<and> load_pem_private_key L rk None = Inr key \<and> issued L key b bs
         \<and> b_subject_name b = Some SERVER_DN
         \<and> b_issuer_name b = Some (cert_subject L issuer_cert)
         \<and> extension_values AUTHORITY_KEY_IDENTIFIER b =
             [AuthorityKeyIdentifier
                (Some (key_identifier L (cert_public_key L issuer_cert))) None None]))
 \<and> (files s ''client_cert.pem'' = None
      \<and> files (snd (main L s)) ''client_cert.pem'' = Some bs \<longrightarrow>
      (\<exists>key b. issued L key b bs
         \<and> b_subject_name b = Some CLIENT_DN \<and> b_issuer_name b = b_subject_name b
         \<and> b_public_key b = Some (public_key_of L key)
         \<and> extension_values AUTHORITY_KEY_IDENTIFIER b =
             [AuthorityKeyIdentifier (Some (key_identifier L (public_key_of L key))) None None]
         \<and> extension_values SUBJECT_KEY_IDENTIFIER b =
             [SubjectKeyIdentifier (key_identifier L (public_key_of L key))]))"
proof -
  have root: "(\<exists>key b. load_pem_private_key L pem None = Inr key \<and> issued L key b bs
         \<and> b_subject_name b = Some ROOT_DN \<and> b_issuer_name b = b_subject_name b
         \<and> b_public_key b = Some (public_key_of L key)
         \<and> extension_values AUTHORITY_KEY_IDENTIFIER b =
             [AuthorityKeyIdentifier (Some (key_identifier L (public_key_of L key))) None None]
         \<and> extension_values SUBJECT_KEY_IDENTIFIER b =
             [SubjectKeyIdentifier (key_identifier L (public_key_of L key))])"
    if "create_root_cert L pem days w = (Inr bs, w')" for pem days w bs w'
    using create_root_cert_Inr [OF that] by (fastforce simp: extension_values_def)
  have client: "(\<exists>key b. load_pem_private_key L pem None = Inr key \<and> issued L key b bs
         \<and> b_subject_name b = Some CLIENT_DN \<and> b_issuer_name b = b_subject_name b
         \<and> b_public_key b = Some (public_key_of L key)
         \<and> extension_values AUTHORITY_KEY_IDENTIFIER b =
             [AuthorityKeyIdentifier (Some (key_identifier L (public_key_of L key))) None None]
         \<and> extension_values SUBJECT_KEY_IDENTIFIER b =
             [SubjectKeyIdentifier (key_identifier L (public_key_of L key))])"
    if "create_selfsigned_client_cert L pem days w = (Inr bs, w')" for pem days w bs w'
    using create_selfsigned_client_cert_Inr [OF that] by (fastforce simp: extension_values_def)
  have signing: "(\<exists>issuer_cert key pub b.
           load_pem_x509_certificate L pem_issuer_cert = Inr issuer_cert
         \<and> load_pem_private_key L pem None = Inr key
         \<and> load_pem_public_key L pem_public_key = Inr pub \<and> issued L key b bs
         \<and> b_subject_name b = Some INTERMEDIATE_DN
         \<and> b_issuer_name b = Some (cert_subject L issuer_cert)
         \<and> b_public_key b = Some pub
         \<and> extension_values AUTHORITY_KEY_IDENTIFIER b =
             [AuthorityKeyIdentifier
                (Some (key_identifier L (cert_public_key L issuer_cert))) None None]
         \<and> extension_values SUBJECT_KEY_IDENTIFIER b =
             [SubjectKeyIdentifier (key_identifier L pub)])"
    if "create_signing_cert L pem_issuer_cert pem pem_public_key days w = (Inr bs, w')"
    for pem_issuer_cert pem pem_public_key days w bs w'
    using create_signing_cert_Inr [OF that] by (fastforce simp: extension_values_def)
  have server: "(\<exists>issuer_cert key pub b.
           load_pem_x509_certificate L pem_issuer_cert = Inr issuer_cert
         \<and> load_pem_private_key L pem None = Inr key
         \<and> load_pem_public_key L pem_public_key = Inr pub \<and> issued L key b bs
         \<and> b_subject_name b = Some SERVER_DN
         \<and> b_issuer_name b = Some (cert_subject L issuer_cert)
         \<and> b_public_key b = Some pub
         \<and> extension_values AUTHORITY_KEY_IDENTIFIER b =
             [AuthorityKeyIdentifier
                (Some (key_identifier L (cert_public_key L issuer_cert))) None None]
         \<and> extension_values SUBJECT_KEY_IDENTIFIER b =
             [SubjectKeyIdentifier (key_identifier L pub)])"
    if "create_server_cert L pem_issuer_cert pem pem_public_key days w = (Inr bs, w')"
    for pem_issuer_cert pem pem_public_key days w bs w'
    using create_server_cert_Inr [OF that] by (fastforce simp: extension_values_def)
  have signing_match: "(\<exists>b. issued L key b bs
         \<and> extension_values AUTHORITY_KEY_IDENTIFIER b =
             [AuthorityKeyIdentifier
                (Some (key_identifier L (public_key_of L key))) None None])"
    if "create_signing_cert L pem_issuer_cert pem pem_public_key days w = (Inr bs, w')
      \<and> load_pem_x509_certificate L pem_issuer_cert = Inr issuer_cert
      \<and> load_pem_private_key L pem None = Inr key
      \<and> cert_public_key L issuer_cert = public_key_of L key"
    using that signing [of pem_issuer_cert pem pem_public_key days w bs w'] by auto
  have server_match: "(\<exists>b. issued L key b bs
         \<and> extension_values AUTHORITY_KEY_IDENTIFIER b =
             [AuthorityKeyIdentifier
                (Some (key_identifier L (public_key_of L key))) None None])"
    if "create_server_cert L pem_issuer_cert pem pem_public_key days w = (Inr bs, w')
      \<and> load_pem_x509_certificate L pem_issuer_cert = Inr issuer_cert
      \<and> load_pem_private_key L pem None = Inr key
      \<and> cert_public_key L issuer_cert = public_key_of L key"
    using that server [of pem_issuer_cert pem pem_public_key days w bs w'] by auto
  have run_root: "(\<exists>key b. issued L key b bs
         \<and> b_subject_name b = Some ROOT_DN \<and> b_issuer_name b = b_subject_name b
         \<and> b_public_key b = Some (public_key_of L key)
         \<and> extension_values AUTHORITY_KEY_IDENTIFIER b =
             [AuthorityKeyIdentifier (Some (key_identifier L (public_key_of L key))) None None]
         \<and> extension_values SUBJECT_KEY_IDENTIFIER b =
             [SubjectKeyIdentifier (key_identifier L (public_key_of L key))])"
    if "files s ''root_cert.pem'' = None"
      and "files (snd (main L s)) ''root_cert.pem'' = Some bs"
    by (rule hoare_absent_file [OF main_makes_root_cert that]) (blast dest: root)
  have run_client: "(\<exists>key b. issued L key b bs
         \<and> b_subject_name b = Some CLIENT_DN \<and> b_issuer_name b = b_subject_name b
         \<and> b_public_key b = Some (public_key_of L key)
         \<and> extension_values AUTHORITY_KEY_IDENTIFIER b =
             [AuthorityKeyIdentifier (Some (key_identifier L (public_key_of L key))) None None]
         \<and> extension_values SUBJECT_KEY_IDENTIFIER b =
             [SubjectKeyIdentifier (key_identifier L (public_key_of L key))])"
    if "files s ''client_cert.pem'' = None"
      and "files (snd (main L s)) ''client_cert.pem'' = Some bs"
    by (rule hoare_absent_file [OF main_makes_client_cert that]) (blast dest: client)
  have run_signing: "(\<exists>rc rk issuer_cert key b.
           files (snd (main L s)) ''root_cert.pem'' = Some rc
         \<and> files (snd (main L s)) ''root_ca_priv_key.pem'' = Some rk
         \<and> load_pem_x509_certificate L rc = Inr issuer_cert
         \<and> load_pem_private_key L rk None = Inr key \<and> issued L key b bs
         \<and> b_subject_name b = Some INTERMEDIATE_DN
         \<and> b_issuer_name b = Some (cert_subject L issuer_cert)
         \<and> extension_values AUTHORITY_KEY_IDENTIFIER b =
             [AuthorityKeyIdentifier
                (Some (key_identifier L (cert_public_key L issuer_cert))) None None])"
    if "files s ''signing_cert.pem'' = None"
      and "files (snd (main L s)) ''signing_cert.pem'' = Some bs"
  proof -
    have "hoare (\<lambda>t. files t ''signing_cert.pem'' = None) (main L)
       (\<lambda>r t. \<forall>bs. files t ''signing_cert.pem'' = Some bs \<longrightarrow>
            (\<exists>rc rk. files t ''root_cert.pem'' = Some rc
               \<and> files t ''root_ca_priv_key.pem'' = Some rk
               \<and> (\<exists>issuer_cert key b.
           load_pem_x509_certificate L rc = Inr issuer_cert
         \<and> load_pem_private_key L rk None = Inr key \<and> issued L key b bs
         \<and> b_subject_name b = Some INTERMEDIATE_DN
         \<and> b_issuer_name b = Some (cert_subject L issuer_cert)
         \<and> extension_values AUTHORITY_KEY_IDENTIFIER b =
             [AuthorityKeyIdentifier
                (Some (key_identifier L (cert_public_key L issuer_cert))) None None])))"
      by (rule main_links_signing_cert) (blast dest: signing)
    with that show ?thesis
      unfolding hoare_def by (elim allE [where x = s] impE) auto
  qed
  have run_server: "(\<exists>rc rk issuer_cert key b.
           files (snd (main L s)) ''signing_cert.pem'' = Some rc
         \<and> files (snd (main L s)) ''signing_ca_priv_key.pem'' = Some rk
         \<and> load_pem_x509_certificate L rc = Inr issuer_cert
         \<and> load_pem_private_key L rk None = Inr key \<and> issued L key b bs
         \<and> b_subject_name b = Some SERVER_DN
         \<and> b_issuer_name b = Some (cert_subject L issuer_cert)
         \<and> extension_values AUTHORITY_KEY_IDENTIFIER b =
             [AuthorityKeyIdentifier
                (Some (key_identifier L (cert_public_key L issuer_cert))) None None])"
    if "files s ''server_cert.pem'' = None"
      and "files (snd (main L s)) ''server_cert.pem'' = Some bs"
  proof -
    have "hoare (\<lambda>t. files t ''server_cert.pem'' = None) (main L)
       (\<lambda>r t. \<forall>bs. files t ''server_cert.pem'' = Some bs \<longrightarrow>
            (\<exists>rc rk. files t ''signing_cert.pem'' = Some rc
               \<and> files t ''signing_ca_priv_key.pem'' = Some rk
               \<and> (\<exists>issuer_cert key b.
           load_pem_x509_certificate L rc = Inr issuer_cert
         \<and> load_pem_private_key L rk None = Inr key \<and> issued L key b bs
         \<and> b_subject_name b = Some SERVER_DN
         \<and> b_issuer_name b = Some (cert_subject L issuer_cert)
         \<and> extension_values AUTHORITY_KEY_IDENTIFIER b =
             [AuthorityKeyIdentifier
                (Some (key_identifier L (cert_public_key L issuer_cert))) None None])))"
      by (rule main_links_server_cert) (blast dest: server)
    with that show ?thesis
      unfolding hoare_def by (elim allE [where x = s] impE) auto
  qed
  show ?thesis
    apply (intro conjI)
             apply (rule impI, erule root)
            apply (rule impI, erule signing)
           apply (rule impI, erule server)
          apply (rule impI, erule client)
         apply (rule impI, erule signing_match)
        apply (rule impI, erule server_match)
       apply (rule impI, elim conjE, erule (1) run_root)
      apply (rule impI, elim conjE, erule (1) run_signing)
     apply (rule impI, elim conjE, erule (1) run_server)
    apply (rule impI, elim conjE, erule (1) run_client)
    done
qed

theorem issuer_and_key_identifiers_witness:
  "create_root_cert sample_backend ''Sk'' 365 1 = (Inr ''Ck:Mothership Root'', 3)
 \<and> (\<exists>key b. load_pem_private_key sample_backend ''Sk'' None = Inr key \<and> issued sample_backend key b ''Ck:Mothership Root''
         \<and> b_subject_name b = Some ROOT_DN \<and> b_issuer_name b = b_subject_name b
         \<and> b_public_key b = Some (public_key_of sample_backend key)
         \<and> extension_values AUTHORITY_KEY_IDENTIFIER b =
             [AuthorityKeyIdentifier (Some (key_identifier sample_backend (public_key_of sample_backend key))) None None]
         \<and> extension_values SUBJECT_KEY_IDENTIFIER b =
             [SubjectKeyIdentifier (key_identifier sample_backend (public_key_of sample_backend key))])
 \<and> create_signing_cert sample_backend ''Ck:Mothership Root'' ''Sk'' ''Pkkkk'' 14 4
      = (Inr ''Ckkkk:Mothership CA1'', 6)
 \<and> (\<exists>issuer_cert key pub b.
           load_pem_x509_certificate sample_backend ''Ck:Mothership Root'' = Inr issuer_cert
         \<and> load_pem_private_key sample_backend ''Sk'' None = Inr key
         \<and> load_pem_public_key sample_backend ''Pkkkk'' = Inr pub \<and> issued sample_backend key b ''Ckkkk:Mothership CA1''
         \<and> b_subject_name b = Some INTERMEDIATE_DN
         \<and> b_issuer_name b = Some (cert_subject sample_backend issuer_cert)
         \<and> b_public_key b = Some pub
         \<and> extension_values AUTHORITY_KEY_IDENTIFIER b =
             [AuthorityKeyIdentifier
                (Some (key_identifier sample_backend (cert_public_key sample_backend issuer_cert))) None None]
         \<and> extension_values SUBJECT_KEY_IDENTIFIER b =
             [SubjectKeyIdentifier (key_identifier sample_backend pub)])
 \<and> create_server_cert sample_backend ''Ckkkk:Mothership CA1'' ''Skkkk'' ''Pkkkkkkk'' 14 7
      = (Inr ''Ckkkkkkk:Mothership Server'', 9)
 \<and> (\<exists>issuer_cert key pub b.
           load_pem_x509_certificate sample_backend ''Ckkkk:Mothership CA1'' = Inr issuer_cert
         \<and> load_pem_private_key sample_backend ''Skkkk'' None = Inr key
         \<and> load_pem_public_key sample_backend ''Pkkkkkkk'' = Inr pub \<and> issued sample_backend key b ''Ckkkkkkk:Mothership Server''
         \<and> b_subject_name b = Some SERVER_DN
         \<and> b_issuer_name b = Some (cert_subject sample_backend issuer_cert)
         \<and> b_public_key b = Some pub
         \<and> extension_values AUTHORITY_KEY_IDENTIFIER b =
             [AuthorityKeyIdentifier
                (Some (key_identifier sample_backend (cert_public_key sample_backend issuer_cert))) None None]
         \<and> extension_values SUBJECT_KEY_IDENTIFIER b =
             [SubjectKeyIdentifier (key_identifier sample_backend pub)])
 \<and> create_selfsigned_client_cert sample_backend ''Skkkkkkkkkk'' 14 10
      = (Inr ''Ckkkkkkkkkk:Random client'', 12)
 \<and> (\<exists>key b. load_pem_private_key sample_backend ''Skkkkkkkkkk'' None = Inr key \<and> issued sample_backend key b ''Ckkkkkkkkkk:Random client''
         \<and> b_subject_name b = Some CLIENT_DN \<and> b_issuer_name b = b_subject_name b
         \<and> b_public_key b = Some (public_key_of sample_backend key)
         \<and> extension_values AUTHORITY_KEY_IDENTIFIER b =
             [AuthorityKeyIdentifier (Some (key_identifier sample_backend (public_key_of sample_backend key))) None None]
         \<and> extension_values SUBJECT_KEY_IDENTIFIER b =
             [SubjectKeyIdentifier (key_identifier sample_backend (public_key_of sample_backend key))])
 \<and> load_pem_x509_certificate sample_backend ''Ck:Mothership Root'' = Inr (''Mothership Root'', 1)
 \<and> load_pem_private_key sample_backend ''Sk'' None = Inr 1
 \<and> cert_public_key sample_backend (''Mothership Root'', 1) = public_key_of sample_backend 1
 \<and> (\<exists>b. issued sample_backend 1 b ''Ckkkk:Mothership CA1''
         \<and> extension_values AUTHORITY_KEY_IDENTIFIER b =
             [AuthorityKeyIdentifier
                (Some (key_identifier sample_backend (public_key_of sample_backend 1))) None None])
 \<and> load_pem_x509_certificate sample_backend ''Ckkkk:Mothership CA1'' = Inr (''Mothership CA1'', 4)
 \<and> load_pem_private_key sample_backend ''Skkkk'' None = Inr 4
 \<and> cert_public_key sample_backend (''Mothership CA1'', 4) = public_key_of sample_backend 4
 \<and> (\<exists>b. issued sample_backend 4 b ''Ckkkkkkk:Mothership Server''
         \<and> extension_values AUTHORITY_KEY_IDENTIFIER b =
             [AuthorityKeyIdentifier
                (Some (key_identifier sample_backend (public_key_of sample_backend 4))) None None])
 \<and> files empty_store ''root_cert.pem'' = None
 \<and> files (snd (main sample_backend empty_store)) ''root_cert.pem''
      = Some ''Ck:Mothership Root''
 \<and> (\<exists>key b. issued sample_backend key b ''Ck:Mothership Root''
         \<and> b_subject_name b = Some ROOT_DN \<and> b_issuer_name b = b_subject_name b
         \<and> b_public_key b = Some (public_key_of sample_backend key)
         \<and> extension_values AUTHORITY_KEY_IDENTIFIER b =
             [AuthorityKeyIdentifier (Some (key_identifier sample_backend (public_key_of sample_backend key))) None None]
         \<and> extension_values SUBJECT_KEY_IDENTIFIER b =
             [SubjectKeyIdentifier (key_identifier sample_backend (public_key_of sample_backend key))])
 \<and> files empty_store ''signing_cert.pem'' = None
 \<and> files (snd (main sample_backend empty_store)) ''signing_cert.pem''
      = Some ''Ckkkk:Mothership CA1''
 \<and> (\<exists>rc rk issuer_cert key b.
           files (snd (main sample_backend empty_store)) ''root_cert.pem'' = Some rc
         \<and> files (snd (main sample_backend empty_store)) ''root_ca_priv_key.pem'' = Some rk
         \<and> load_pem_x509_certificate sample_backend rc = Inr issuer_cert
         \<and> load_pem_private_key sample_backend rk None = Inr key \<and> issued sample_backend key b ''Ckkkk:Mothership CA1''
         \<and> b_subject_name b = Some INTERMEDIATE_DN
         \<and> b_issuer_name b = Some (cert_subject sample_backend issuer_cert)
         \<and> extension_values AUTHORITY_KEY_IDENTIFIER b =
             [AuthorityKeyIdentifier
                (Some (key_identifier sample_backend (cert_public_key sample_backend issuer_cert))) None None])
 \<and> files empty_store ''server_cert.pem'' = None
 \<and> files (snd (main sample_backend empty_store)) ''server_cert.pem''
      = Some ''Ckkkkkkk:Mothership Server''
 \<and> (\<exists>rc rk issuer_cert key b.
           files (snd (main sample_backend empty_store)) ''signing_cert.pem'' = Some rc
         \<and> files (snd (main sample_backend empty_store)) ''signing_ca_priv_key.pem'' = Some rk
         \<and> load_pem_x509_certificate sample_backend rc = Inr issuer_cert
         \<and> load_pem_private_key sample_backend rk None = Inr key \<and> issued sample_backend key b ''Ckkkkkkk:Mothership Server''
         \<and> b_subject_name b = Some SERVER_DN
         \<and> b_issuer_name b = Some (cert_subject sample_backend issuer_cert)
         \<and> extension_values AUTHORITY_KEY_IDENTIFIER b =
             [AuthorityKeyIdentifier
                (Some (key_identifier sample_backend (cert_public_key sample_backend issuer_cert))) None None])
 \<and> files empty_store ''client_cert.pem'' = None
 \<and> files (snd (main sample_backend empty_store)) ''client_cert.pem''
      = Some ''Ckkkkkkkkkk:Random client''
 \<and> (\<exists>key b. issued sample_backend key b ''Ckkkkkkkkkk:Random client''
         \<and> b_subject_name b = Some CLIENT_DN \<and> b_issuer_name b = b_subject_name b
         \<and> b_public_key b = Some (public_key_of sample_backend key)
         \<and> extension_values AUTHORITY_KEY_IDENTIFIER b =
             [AuthorityKeyIdentifier (Some (key_identifier sample_backend (public_key_of sample_backend key))) None None]
         \<and> extension_values SUBJECT_KEY_IDENTIFIER b =
             [SubjectKeyIdentifier (key_identifier sample_backend (public_key_of sample_backend key))])"
proof -
  note t = issuer_and_key_identifiers [where L = sample_backend and s = empty_store]
  have e: "files empty_store f = None" for f
    by (simp add: empty_store_def)
  have p: "files (snd (main sample_backend empty_store)) ''root_cert.pem''
             = Some ''Ck:Mothership Root''"
    "files (snd (main sample_backend empty_store)) ''signing_cert.pem''
             = Some ''Ckkkk:Mothership CA1''"
    "files (snd (main sample_backend empty_store)) ''server_cert.pem''
             = Some ''Ckkkkkkk:Mothership Server''"
    "files (snd (main sample_backend empty_store)) ''client_cert.pem''
             = Some ''Ckkkkkkkkkk:Random client''"
    by (simp_all add: sample_first_run provisioned_store_def)
  have m: "load_pem_x509_certificate sample_backend ''Ck:Mothership Root''
             = Inr (''Mothership Root'', 1)"
    "load_pem_private_key sample_backend ''Sk'' None = Inr 1"
    "cert_public_key sample_backend (''Mothership Root'', 1) = public_key_of sample_backend 1"
    "load_pem_x509_certificate sample_backend ''Ckkkk:Mothership CA1''
             = Inr (''Mothership CA1'', 4)"
    "load_pem_private_key sample_backend ''Skkkk'' None = Inr 4"
    "cert_public_key sample_backend (''Mothership CA1'', 4) = public_key_of sample_backend 4"
    by (simp_all add: sample_simps)
  note 1 = t [where pem = "''Sk''" and days = 365 and w = 1,
      THEN conjunct1, THEN mp, OF sample_root]
  note 2 = t [where pem_issuer_cert = "''Ck:Mothership Root''" and pem = "''Sk''"
      and pem_public_key = "''Pkkkk''" and days = 14 and w = 4,
      THEN conjunct2, THEN conjunct1, THEN mp, OF sample_signing]
  note 3 = t [where pem_issuer_cert = "''Ckkkk:Mothership CA1''" and pem = "''Skkkk''"
      and pem_public_key = "''Pkkkkkkk''" and days = 14 and w = 7,
      THEN conjunct2, THEN conjunct2, THEN conjunct1, THEN mp, OF sample_server]
  note 4 = t [where pem = "''Skkkkkkkkkk''" and days = 14 and w = 10,
      THEN conjunct2, THEN conjunct2, THEN conjunct2, THEN conjunct1, THEN mp, OF sample_client]
  have h5: "create_signing_cert sample_backend ''Ck:Mothership Root'' ''Sk'' ''Pkkkk'' 14 4 = (Inr ''Ckkkk:Mothership CA1'', 6)
      \<and> load_pem_x509_certificate sample_backend ''Ck:Mothership Root'' = Inr (''Mothership Root'', 1)
      \<and> load_pem_private_key sample_backend ''Sk'' None = Inr 1
      \<and> cert_public_key sample_backend (''Mothership Root'', 1) = public_key_of sample_backend 1"
    using sample_signing m(1) m(2) m(3) by (intro conjI)
  note 5 = t [where pem_issuer_cert = "''Ck:Mothership Root''" and pem = "''Sk''"
      and pem_public_key = "''Pkkkk''" and days = 14 and w = 4
      and issuer_cert = "(''Mothership Root'', 1)" and key = 1,
      THEN conjunct2, THEN conjunct2, THEN conjunct2, THEN conjunct2, THEN conjunct1, THEN mp, OF h5]
  have h6: "create_server_cert sample_backend ''Ckkkk:Mothership CA1'' ''Skkkk'' ''Pkkkkkkk'' 14 7 = (Inr ''Ckkkkkkk:Mothership Server'', 9)
      \<and> load_pem_x509_certificate sample_backend ''Ckkkk:Mothership CA1'' = Inr (''Mothership CA1'', 4)
      \<and> load_pem_private_key sample_backend ''Skkkk'' None = Inr 4
      \<and> cert_public_key sample_backend (''Mothership CA1'', 4) = public_key_of sample_backend 4"
    using sample_server m(4) m(5) m(6) by (intro conjI)
  note 6 = t [where pem_issuer_cert = "''Ckkkk:Mothership CA1''" and pem = "''Skkkk''"
      and pem_public_key = "''Pkkkkkkk''" and days = 14 and w = 7
      and issuer_cert = "(''Mothership CA1'', 4)" and key = 4,
      THEN conjunct2, THEN conjunct2, THEN conjunct2, THEN conjunct2, THEN conjunct2, THEN conjunct1, THEN mp, OF h6]
  have h7: "files empty_store ''root_cert.pem'' = None
      \<and> files (snd (main sample_backend empty_store)) ''root_cert.pem'' = Some ''Ck:Mothership Root''"
    using e p(1) by (intro conjI)
  note 7 = t [where bs = "''Ck:Mothership Root''",
      THEN conjunct2, THEN conjunct2, THEN conjunct2, THEN conjunct2, THEN conjunct2, THEN conjunct2, THEN conjunct1, THEN mp, OF h7]
  have h8: "files empty_store ''signing_cert.pem'' = None
      \<and> files (snd (main sample_backend empty_store)) ''signing_cert.pem'' = Some ''Ckkkk:Mothership CA1''"
    using e p(2) by (intro conjI)
  note 8 = t [where bs = "''Ckkkk:Mothership CA1''",
      THEN conjunct2, THEN conjunct2, THEN conjunct2, THEN conjunct2, THEN conjunct2, THEN conjunct2, THEN conjunct2, THEN conjunct1, THEN mp, OF h8]
  have h9: "files empty_store ''server_cert.pem'' = None
      \<and> files (snd (main sample_backend empty_store)) ''server_cert.pem'' = Some ''Ckkkkkkk:Mothership Server''"
    using e p(3) by (intro conjI)
  note 9 = t [where bs = "''Ckkkkkkk:Mothership Server''",
      THEN conjunct2, THEN conjunct2, THEN conjunct2, THEN conjunct2, THEN conjunct2, THEN conjunct2, THEN conjunct2, THEN conjunct2, THEN conjunct1, THEN mp, OF h9]
  have h10: "files empty_store ''client_cert.pem'' = None
      \<and> files (snd (main sample_backend empty_store)) ''client_cert.pem'' = Some ''Ckkkkkkkkkk:Random client''"
    using e p(4) by (intro conjI)
  note 10 = t [where bs = "''Ckkkkkkkkkk:Random client''",
      THEN conjunct2, THEN conjunct2, THEN conjunct2, THEN conjunct2, THEN conjunct2, THEN conjunct2, THEN conjunct2, THEN conjunct2, THEN conjunct2, THEN mp, OF h10]
  from 1 2 3 4 5 6 7 8 9 10 e p m sample_root sample_signing sample_server sample_client
  show ?thesis by (intro conjI)
qed

end
